(* ===== verification/Prelude.thy ===== *)
theory Prelude
  imports Main
begin

text \<open>
  Shared vocabulary of the countdown-timer development: the lemma collections the
  component theories fill, and generic facts on lists of characters and on
  \<open>removeAll\<close> that the JavaScript runtime model, the parser and the widget model use.
  JavaScript strings are modelled as \<^typ>\<open>string\<close> (lists of code units below 256);
  JavaScript numbers that the program keeps integral are modelled as \<^typ>\<open>int\<close>.
\<close>

named_theorems js_simps "evaluation rules of the JavaScript runtime model"
named_theorems widget_simps "unfolding rules of the widget handlers"

type_synonym js_string = string
type_synonym js_number = int

subsection \<open>Prefix scanning\<close>

lemma takeWhile_all:
  "\<forall>x\<in>set xs. P x \<Longrightarrow> takeWhile P xs = xs"
  by (induction xs) auto

lemma dropWhile_all:
  "\<forall>x\<in>set xs. P x \<Longrightarrow> dropWhile P xs = []"
  by (induction xs) auto

lemma dropWhile_none:
  "\<forall>x\<in>set xs. \<not> P x \<Longrightarrow> dropWhile P xs = xs"
  by (cases xs) auto

lemma dropWhile_hd_stop:
  "xs \<noteq> [] \<Longrightarrow> \<not> P (hd xs) \<Longrightarrow> dropWhile P xs = xs"
  by (cases xs) auto

subsection \<open>Left folds over a prefix of neutral elements\<close>

lemma foldl_replicate_fixed:
  "f a z = a \<Longrightarrow> foldl f a (replicate k z) = a"
  by (induction k) auto

subsection \<open>Integer division by a positive constant\<close>

lemma div_mod_unique_int:
  fixes q r b :: int
  assumes "0 \<le> r" "r < b"
  shows "(b * q + r) div b = q \<and> (b * q + r) mod b = r"
  using assms by auto

end
