(* ===== verification/JsRuntime.thy ===== *)
theory JsRuntime
  imports Prelude
begin

text \<open>
  The ECMAScript built-ins that \<^verbatim>\<open>parseTimeInput\<close> and \<^verbatim>\<open>formatTime\<close> of
  \<^verbatim>\<open>src/src/App.tsx\<close> call: \<^verbatim>\<open>String.prototype.trim\<close>,
  \<^verbatim>\<open>String.prototype.split\<close> with a one-character separator, the global
  \<^verbatim>\<open>parseInt\<close> without radix, the falsy test of \<^verbatim>\<open>x || 0\<close>,
  \<^verbatim>\<open>Number.prototype.toString\<close> on integral numbers and
  \<^verbatim>\<open>String.prototype.padStart\<close> with a one-character filler. They follow the
  algorithms of the language specification (ECMA-262, sections on
  \<^verbatim>\<open>parseInt\<close>, \<^verbatim>\<open>TrimString\<close>, \<^verbatim>\<open>split\<close>, \<^verbatim>\<open>padStart\<close>). Strings
  are lists of UTF-16 code units, restricted to the units below 256 that
  \<^typ>\<open>char\<close> holds; numbers are mathematical integers, so the rounding of
  doubles above \<open>2^53\<close> and the exponent notation of \<^verbatim>\<open>toString\<close> above
  \<open>10^21\<close> are outside the model.
\<close>

subsection \<open>White space and trimming\<close>

text \<open>ECMAScript WhiteSpace and LineTerminator code units below 256:
  TAB, LF, VT, FF, CR, SPACE and NO-BREAK SPACE.\<close>

definition js_is_space :: "char \<Rightarrow> bool" where
  "js_is_space c \<longleftrightarrow> of_char c \<in> set [9, 10, 11, 12, 13, 32, 160 :: nat]"

definition js_trim :: "js_string \<Rightarrow> js_string" where
  "js_trim s = rev (dropWhile js_is_space (rev (dropWhile js_is_space s)))"

subsection \<open>Splitting on a separator\<close>

text \<open>\<^verbatim>\<open>s.split(c)\<close> for a one-unit separator \<open>c\<close>: the pieces between the
  occurrences of \<open>c\<close>, always at least one (\<^verbatim>\<open>"".split(":")\<close> is
  \<^verbatim>\<open>[""]\<close>).\<close>

fun js_split :: "char \<Rightarrow> js_string \<Rightarrow> js_string list" where
  "js_split c [] = [[]]"
| "js_split c (x # xs) =
     (let r = js_split c xs in if x = c then [] # r else (x # hd r) # tl r)"

subsection \<open>parseInt\<close>

text \<open>The value of a code unit as a digit in radices up to 36; 36 for a unit that
  is no digit in any radix.\<close>

definition js_digit_value :: "char \<Rightarrow> nat" where
  "js_digit_value c =
     (let n = of_char c :: nat in
      if 48 \<le> n \<and> n \<le> 57 then n - 48
      else if 97 \<le> n \<and> n \<le> 122 then n - 87
      else if 65 \<le> n \<and> n \<le> 90 then n - 55
      else 36)"

definition js_digits_value :: "nat \<Rightarrow> js_string \<Rightarrow> nat" where
  "js_digits_value R ds = foldl (\<lambda>acc c. acc * R + js_digit_value c) 0 ds"

text \<open>The steps of \<^verbatim>\<open>parseInt\<close> after the leading white space is gone: the
  sign (step 4), the string without its sign (step 5), and the test for the
  \<^verbatim>\<open>0x\<close> or \<^verbatim>\<open>0X\<close> prefix that switches to radix 16 (steps 9 and 10).\<close>

definition js_sign_of :: "js_string \<Rightarrow> int" where
  "js_sign_of S = (if S \<noteq> [] \<and> hd S = CHR ''-'' then -1 else 1)"

definition js_strip_sign :: "js_string \<Rightarrow> js_string" where
  "js_strip_sign S = (if S \<noteq> [] \<and> (hd S = CHR ''-'' \<or> hd S = CHR ''+'') then tl S else S)"

definition js_hex_prefixed :: "js_string \<Rightarrow> bool" where
  "js_hex_prefixed S \<longleftrightarrow> take 2 S = ''0x'' \<or> take 2 S = ''0X''"

text \<open>\<^verbatim>\<open>parseInt(s)\<close> with the radix undefined: skip leading white space, read
  an optional sign, switch to radix 16 after a \<^verbatim>\<open>0x\<close> or \<^verbatim>\<open>0X\<close> prefix,
  take the longest prefix of digits of the radix; no digit at all is \<^verbatim>\<open>NaN\<close>,
  here \<^const>\<open>None\<close>.\<close>

definition js_parseInt :: "js_string \<Rightarrow> js_number option" where
  "js_parseInt input =
     (let S1 = dropWhile js_is_space input;
          sign = js_sign_of S1;
          S2 = js_strip_sign S1;
          hex = js_hex_prefixed S2;
          R = (if hex then 16 else 10 :: nat);
          S3 = (if hex then drop 2 S2 else S2);
          Z = takeWhile (\<lambda>c. js_digit_value c < R) S3
      in if Z = [] then None else Some (sign * int (js_digits_value R Z)))"

text \<open>\<^verbatim>\<open>x || 0\<close> on the result: \<^verbatim>\<open>NaN\<close>, \<^verbatim>\<open>0\<close> and \<^verbatim>\<open>-0\<close> are falsy
  and give \<^verbatim>\<open>0\<close>; every other number is kept.\<close>

definition js_or_zero :: "js_number option \<Rightarrow> js_number" where
  "js_or_zero r = (case r of None \<Rightarrow> 0 | Some n \<Rightarrow> n)"

subsection \<open>toString and padStart\<close>

fun js_nat_digits :: "nat \<Rightarrow> js_string" where
  "js_nat_digits n =
     (if n < 10 then [char_of (48 + n)]
      else js_nat_digits (n div 10) @ [char_of (48 + n mod 10)])"

definition js_toString :: "js_number \<Rightarrow> js_string" where
  "js_toString i =
     (if i < 0 then CHR ''-'' # js_nat_digits (nat (- i)) else js_nat_digits (nat i))"

definition js_padStart :: "nat \<Rightarrow> char \<Rightarrow> js_string \<Rightarrow> js_string" where
  "js_padStart targetLength filler s = replicate (targetLength - length s) filler @ s"

text \<open>Decimal digits, the code units \<^verbatim>\<open>0\<close> to \<^verbatim>\<open>9\<close>.\<close>

definition js_decimal :: "char \<Rightarrow> bool" where
  "js_decimal c \<longleftrightarrow> js_digit_value c < 10"

declare js_nat_digits.simps [simp del]

subsection \<open>Splitting\<close>

lemma js_split_nonempty [simp]: "js_split c s \<noteq> []"
  by (induction s) (auto simp: Let_def)

lemma js_split_no_sep [js_simps]: "c \<notin> set s \<Longrightarrow> js_split c s = [s]"
  by (induction s) (auto simp: Let_def)

lemma js_split_append_sep [js_simps]: "c \<notin> set a \<Longrightarrow> js_split c (a @ c # b) = a # js_split c b"
  by (induction a) (auto simp: Let_def)

lemma length_js_split: "length (js_split c s) = Suc (count_list s c)"
proof (induction s)
  case Nil
  then show ?case by simp
next
  case (Cons x xs)
  moreover have "js_split c xs \<noteq> []" by simp
  ultimately show ?case by (cases "js_split c xs") (auto simp: Let_def)
qed

lemma js_split_pieces: "p \<in> set (js_split c s) \<Longrightarrow> c \<notin> set p"
proof (induction s arbitrary: p)
  case Nil
  then show ?case by simp
next
  case (Cons x xs)
  have ne: "js_split c xs \<noteq> []" by simp
  then obtain q qs where q: "js_split c xs = q # qs" by (cases "js_split c xs") auto
  with Cons show ?case by (auto simp: Let_def split: if_splits)
qed

subsection \<open>Digits, parseInt and toString\<close>

lemma js_decimal_code: "js_decimal c \<longleftrightarrow> 48 \<le> (of_char c :: nat) \<and> (of_char c :: nat) \<le> 57"
  by (auto simp: js_decimal_def js_digit_value_def Let_def)

lemma js_decimal_not_special:
  assumes "js_decimal c"
  shows "\<not> js_is_space c" "c \<noteq> CHR ''-''" "c \<noteq> CHR ''+''" "c \<noteq> CHR ''x''"
    "c \<noteq> CHR ''X''" "c \<noteq> CHR '':''"
  using assms by (auto simp: js_decimal_code js_is_space_def)

lemma js_digit_value_char_of: "d < 10 \<Longrightarrow> js_digit_value (char_of (48 + d)) = d"
  by (simp add: js_digit_value_def Let_def)

lemma js_nat_digits_decimal: "\<forall>c\<in>set (js_nat_digits n). js_decimal c"
proof (induction n rule: js_nat_digits.induct)
  case (1 n)
  then show ?case
    by (subst js_nat_digits.simps) (auto simp: js_decimal_def js_digit_value_char_of)
qed

lemma js_nat_digits_nonempty [simp]: "js_nat_digits n \<noteq> []"
  by (subst js_nat_digits.simps) simp

lemma js_digits_value_snoc:
  "js_digits_value R (ds @ [c]) = js_digits_value R ds * R + js_digit_value c"
  by (simp add: js_digits_value_def)

lemma js_digits_value_nat_digits: "js_digits_value 10 (js_nat_digits n) = n"
proof (induction n rule: js_nat_digits.induct)
  case (1 n)
  show ?case
  proof (cases "n < 10")
    case True
    then show ?thesis
      by (subst js_nat_digits.simps) (simp add: js_digits_value_def js_digit_value_char_of)
  next
    case False
    with "1.IH" show ?thesis
      by (subst js_nat_digits.simps) (simp add: js_digits_value_snoc js_digit_value_char_of)
  qed
qed

lemma js_digits_value_zeros:
  "js_digits_value R (replicate k CHR ''0'' @ ds) = js_digits_value R ds"
proof -
  have "foldl (\<lambda>acc c. acc * R + js_digit_value c) 0 (replicate k CHR ''0'') = 0"
    by (rule foldl_replicate_fixed) (simp add: js_digit_value_def)
  then show ?thesis by (simp add: js_digits_value_def)
qed

lemma js_decimal_not_hex:
  "\<forall>c\<in>set S. js_decimal c \<Longrightarrow> \<not> js_hex_prefixed S"
proof (cases S)
  case (Cons a S')
  assume "\<forall>c\<in>set S. js_decimal c"
  with Cons show ?thesis
    by (cases S') (auto simp: js_hex_prefixed_def dest: js_decimal_not_special)
qed (simp add: js_hex_prefixed_def)

lemma js_parseInt_decimal_digits:
  assumes "ds \<noteq> []" "\<forall>c\<in>set ds. js_decimal c"
  shows "js_parseInt ds = Some (int (js_digits_value 10 ds))"
    and "js_parseInt (CHR ''-'' # ds) = Some (- int (js_digits_value 10 ds))"
proof -
  have hd: "js_decimal (hd ds)" using assms by simp
  have S1: "dropWhile js_is_space ds = ds"
    using assms(1) js_decimal_not_special(1)[OF hd] by (rule dropWhile_hd_stop)
  have tw: "takeWhile (\<lambda>c. js_digit_value c < 10) ds = ds"
    using assms(2) by (simp add: js_decimal_def)
  have sign: "js_sign_of ds = 1" "js_strip_sign ds = ds"
    using assms(1) js_decimal_not_special(2,3)[OF hd]
    by (simp_all add: js_sign_of_def js_strip_sign_def)
  have sign': "js_sign_of (CHR ''-'' # ds) = -1" "js_strip_sign (CHR ''-'' # ds) = ds"
    by (simp_all add: js_sign_of_def js_strip_sign_def)
  have neg: "dropWhile js_is_space (CHR ''-'' # ds) = CHR ''-'' # ds"
    by (simp add: js_is_space_def)
  show "js_parseInt ds = Some (int (js_digits_value 10 ds))"
    using js_decimal_not_hex[OF assms(2)] assms(1)
    by (simp add: js_parseInt_def Let_def S1 tw sign)
  show "js_parseInt (CHR ''-'' # ds) = Some (- int (js_digits_value 10 ds))"
    using js_decimal_not_hex[OF assms(2)] assms(1)
    by (simp only: js_parseInt_def Let_def neg sign') (simp add: tw)
qed

lemma js_toString_chars: "c \<in> set (js_toString i) \<Longrightarrow> js_decimal c \<or> c = CHR ''-''"
  using js_nat_digits_decimal by (auto simp: js_toString_def split: if_splits)

lemma js_parseInt_padStart_toString:
  "js_parseInt (js_padStart 2 CHR ''0'' (js_toString i)) = Some i"
proof (cases "i < 0")
  case True
  have "length (js_toString i) \<ge> 2"
    using True js_nat_digits_nonempty[of "nat (- i)"]
    by (cases "js_nat_digits (nat (- i))") (auto simp: js_toString_def)
  then have "js_padStart 2 CHR ''0'' (js_toString i) = CHR ''-'' # js_nat_digits (nat (- i))"
    using True by (simp add: js_padStart_def js_toString_def)
  with True show ?thesis
    by (simp add: js_parseInt_decimal_digits(2) js_nat_digits_decimal js_digits_value_nat_digits)
next
  case False
  let ?z = "replicate (2 - length (js_nat_digits (nat i))) CHR ''0''"
  have pad: "js_padStart 2 CHR ''0'' (js_toString i) = ?z @ js_nat_digits (nat i)"
    using False by (simp add: js_padStart_def js_toString_def)
  have dec: "\<forall>c\<in>set (?z @ js_nat_digits (nat i)). js_decimal c"
    using js_nat_digits_decimal by (auto simp: js_decimal_code)
  have "js_parseInt (?z @ js_nat_digits (nat i)) = Some (int (nat i))"
    using js_parseInt_decimal_digits(1)[OF _ dec] js_digits_value_zeros js_digits_value_nat_digits
    by simp
  with pad False show ?thesis by simp
qed


subsection \<open>Trailing white space and trimming\<close>

lemma js_space_digit_value: "js_is_space c \<Longrightarrow> js_digit_value c = 36"
  by (auto simp: js_is_space_def js_digit_value_def)

lemma js_hex_prefixed_append_spaces:
  assumes "\<forall>c\<in>set w. js_is_space c"
  shows "js_hex_prefixed (u @ w) \<longleftrightarrow> js_hex_prefixed u"
proof -
  have nx: "\<not> js_is_space CHR ''x''" "\<not> js_is_space CHR ''X''" "\<not> js_is_space CHR ''0''"
    by (simp_all add: js_is_space_def)
  have "(take 2 (u @ w) = [a, b]) = (take 2 u = [a, b])"
    if "\<not> js_is_space a" "\<not> js_is_space b" for a b
    using assms that
    by (cases u; cases w; cases "tl u"; cases "tl w"; auto)
  then show ?thesis
    using nx by (auto simp: js_hex_prefixed_def)
qed

lemma js_hex_prefixed_drop_append:
  "js_hex_prefixed u \<Longrightarrow> drop 2 (u @ w) = drop 2 u @ w"
  by (cases u; cases "tl u") (auto simp: js_hex_prefixed_def)

lemma js_takeWhile_digits_append_spaces:
  assumes "\<forall>c\<in>set w. js_is_space c" "R \<le> 36"
  shows "takeWhile (\<lambda>c. js_digit_value c < R) (u @ w) = takeWhile (\<lambda>c. js_digit_value c < R) u"
proof -
  have "takeWhile (\<lambda>c. js_digit_value c < R) w = []"
    using assms by (cases w) (auto simp: js_space_digit_value)
  then show ?thesis by (auto simp: takeWhile_append takeWhile_all)
qed

lemma js_strip_sign_append:
  "t \<noteq> [] \<Longrightarrow> js_strip_sign (t @ w) = js_strip_sign t @ w"
  by (simp add: js_strip_sign_def)

lemma js_sign_of_append:
  "t \<noteq> [] \<Longrightarrow> js_sign_of (t @ w) = js_sign_of t"
  by (simp add: js_sign_of_def)

lemma js_parseInt_append_spaces:
  assumes w: "\<forall>c\<in>set w. js_is_space c" and t: "t \<noteq> []" "\<not> js_is_space (hd t)"
  shows "js_parseInt (t @ w) = js_parseInt t"
proof -
  have S1: "dropWhile js_is_space (t @ w) = t @ w" "dropWhile js_is_space t = t"
    using t by (simp_all add: dropWhile_hd_stop)
  let ?u = "js_strip_sign t"
  have S3: "(if js_hex_prefixed ?u then drop 2 (?u @ w) else ?u @ w)
      = (if js_hex_prefixed ?u then drop 2 ?u else ?u) @ w"
    by (cases "js_hex_prefixed ?u") (simp_all add: js_hex_prefixed_drop_append del: drop_append)
  show ?thesis
    unfolding js_parseInt_def Let_def S1 js_strip_sign_append[OF t(1)]
      js_sign_of_append[OF t(1)] js_hex_prefixed_append_spaces[OF w] S3
    using w by (simp add: js_takeWhile_digits_append_spaces)
qed

lemma js_parseInt_dropWhile:
  "js_parseInt (dropWhile js_is_space s) = js_parseInt s"
  by (simp add: js_parseInt_def)

lemma js_parseInt_spaces:
  "\<forall>c\<in>set w. js_is_space c \<Longrightarrow> js_parseInt w = None"
  by (simp add: js_parseInt_def dropWhile_all js_sign_of_def js_strip_sign_def js_hex_prefixed_def)

lemma js_parseInt_trim: "js_parseInt (js_trim s) = js_parseInt s"
proof -
  let ?s = "dropWhile js_is_space s"
  obtain t w where split: "?s = t @ w" and trim: "js_trim s = t"
    and w: "\<forall>c\<in>set w. js_is_space c"
  proof
    show "?s = rev (dropWhile js_is_space (rev ?s)) @ rev (takeWhile js_is_space (rev ?s))"
      by (metis rev_append rev_rev_ident takeWhile_dropWhile_id)
    show "js_trim s = rev (dropWhile js_is_space (rev ?s))" by (simp add: js_trim_def)
    show "\<forall>c\<in>set (rev (takeWhile js_is_space (rev ?s))). js_is_space c"
      by (auto dest: set_takeWhileD)
  qed
  have ps: "js_parseInt s = js_parseInt (t @ w)"
    using split js_parseInt_dropWhile by metis
  show ?thesis
  proof (cases "t = []")
    case True
    then show ?thesis using ps trim w by (simp add: js_parseInt_spaces)
  next
    case False
    then have "?s \<noteq> []" "hd ?s = hd t" using split by simp_all
    then have "\<not> js_is_space (hd t)" using hd_dropWhile by metis
    then show ?thesis using ps trim w False by (simp add: js_parseInt_append_spaces)
  qed
qed


subsection \<open>Facts the parser uses\<close>

lemma js_parseInt_hex:
  assumes "ds \<noteq> []" "list_all (\<lambda>c. js_digit_value c < 16) ds"
  shows "js_parseInt (''0x'' @ ds) = Some (int (js_digits_value 16 ds))"
proof -
  have t: "takeWhile (\<lambda>c. js_digit_value c < 16) ds = ds"
    using assms(2) by (simp add: takeWhile_all list_all_iff)
  show ?thesis using assms(1)
    by (simp add: js_parseInt_def js_sign_of_def js_strip_sign_def js_hex_prefixed_def
        js_is_space_def Let_def t)
qed

lemma js_trim_no_space [js_simps]: "\<forall>c\<in>set s. \<not> js_is_space c \<Longrightarrow> js_trim s = s"
  by (simp add: js_trim_def dropWhile_none)

lemma set_js_trim: "set (js_trim s) \<subseteq> set s"
proof
  fix x assume "x \<in> set (js_trim s)"
  then have "x \<in> set (rev (dropWhile js_is_space s))"
    unfolding js_trim_def by (metis set_dropWhileD set_rev)
  then show "x \<in> set s" by (auto dest: set_dropWhileD)
qed

lemma js_split_pieces_subset: "p \<in> set (js_split c s) \<Longrightarrow> set p \<subseteq> set s"
proof (induction s arbitrary: p)
  case Nil
  then show ?case by simp
next
  case (Cons x xs)
  obtain q qs where q: "js_split c xs = q # qs" by (cases "js_split c xs") auto
  with Cons show ?case by (fastforce simp: Let_def split: if_splits)
qed

lemma js_parseInt_nonneg:
  "js_parseInt s = Some n \<Longrightarrow> CHR ''-'' \<notin> set s \<Longrightarrow> 0 \<le> n"
proof -
  assume r: "js_parseInt s = Some n" and m: "CHR ''-'' \<notin> set s"
  have "js_sign_of (dropWhile js_is_space s) = 1"
  proof (cases "dropWhile js_is_space s")
    case (Cons a r)
    then have "a \<in> set s" by (metis list.set_intros(1) set_dropWhileD)
    with m Cons show ?thesis by (auto simp: js_sign_of_def)
  qed (simp add: js_sign_of_def)
  with r show ?thesis by (auto simp: js_parseInt_def Let_def split: if_splits)
qed

lemma js_or_zero_nonneg:
  "CHR ''-'' \<notin> set s \<Longrightarrow> 0 \<le> js_or_zero (js_parseInt s)"
  by (cases "js_parseInt s") (auto simp: js_or_zero_def js_parseInt_nonneg)

end
