(* ===== verification/Duration.thy ===== *)
theory Duration
  imports JsRuntime
begin

text \<open>
  The time value of the widget and its two conversions from and to text:
  \<^verbatim>\<open>interface TimeState\<close> (App.tsx lines 4--8) as a record of three JavaScript
  numbers, \<^verbatim>\<open>parseTimeInput\<close> (lines 92--100), the Duration Parser of the
  specification, and \<^verbatim>\<open>formatTime\<close> (lines 102--112), the display format.
  The fields are integers of either sign: \<^verbatim>\<open>parseInt\<close> accepts a minus sign,
  so the parser produces negative fields although the specification calls them
  non-negative.
\<close>

record TimeState =
  hours :: js_number
  minutes :: js_number
  seconds :: js_number

text \<open>The test \<^verbatim>\<open>hours === 0 && minutes === 0 && seconds === 0\<close> that the tick,
  the Start handler and the Start button repeat (lines 59, 125 and 218).\<close>

definition is_zero_time :: "TimeState \<Rightarrow> bool" where
  "is_zero_time t \<longleftrightarrow> hours t = 0 \<and> minutes t = 0 \<and> seconds t = 0"

text \<open>A time whose three fields are non-negative: what the specification's data
  model calls a Duration.\<close>

definition nonneg_time :: "TimeState \<Rightarrow> bool" where
  "nonneg_time t \<longleftrightarrow> 0 \<le> hours t \<and> 0 \<le> minutes t \<and> 0 \<le> seconds t"

subsection \<open>parseTimeInput\<close>

text \<open>The arrow function mapped over the pieces:
  \<^verbatim>\<open>(part) => parseInt(part.trim()) || 0\<close> (line 93).\<close>

definition parse_part :: "js_string \<Rightarrow> js_number" where
  "parse_part part = js_or_zero (js_parseInt (js_trim part))"

definition parseTimeInput :: "js_string \<Rightarrow> TimeState" where
  "parseTimeInput input =
     (let parts = map parse_part (js_split CHR '':'' input) in
      if length parts = 2 then \<lparr>hours = 0, minutes = parts ! 0, seconds = parts ! 1\<rparr>
      else if length parts = 3 then \<lparr>hours = parts ! 0, minutes = parts ! 1, seconds = parts ! 2\<rparr>
      else \<lparr>hours = 0, minutes = 0, seconds = 0\<rparr>)"

subsection \<open>formatTime\<close>

text \<open>\<^verbatim>\<open>n.toString().padStart(2, '0')\<close>, the field format of lines 105--111.\<close>

definition pad2 :: "js_number \<Rightarrow> js_string" where
  "pad2 n = js_padStart 2 CHR ''0'' (js_toString n)"

definition formatTime :: "TimeState \<Rightarrow> js_string" where
  "formatTime t =
     (if hours t > 0 then pad2 (hours t) @ '':'' @ pad2 (minutes t) @ '':'' @ pad2 (seconds t)
      else pad2 (minutes t) @ '':'' @ pad2 (seconds t))"

text \<open>The display format of the specification (section 6): \<open>MM:SS\<close> or
  \<open>HH:MM:SS\<close>, every field two decimal digits.\<close>

definition clock_text :: "js_string \<Rightarrow> bool" where
  "clock_text s \<longleftrightarrow>
     (let ps = js_split CHR '':'' s in
      (length ps = 2 \<or> length ps = 3) \<and> list_all (\<lambda>p. length p = 2 \<and> list_all js_decimal p) ps)"

subsection \<open>Lemmas of the parser and the formatter\<close>

lemma pad2_chars: "c \<in> set (pad2 n) \<Longrightarrow> js_decimal c \<or> c = CHR ''-''"
  using js_toString_chars by (auto simp: pad2_def js_padStart_def js_decimal_code)

lemma pad2_no_colon: "CHR '':'' \<notin> set (pad2 n)"
  using pad2_chars js_decimal_not_special(6) by fastforce

lemma pad2_no_space: "\<forall>c\<in>set (pad2 n). \<not> js_is_space c"
  using pad2_chars js_decimal_not_special(1) by (fastforce simp: js_is_space_def)

lemma pad2_nonneg_no_minus: "0 \<le> n \<Longrightarrow> CHR ''-'' \<notin> set (pad2 n)"
  using js_nat_digits_decimal[of "nat n"] js_decimal_not_special(2)
  by (auto simp: pad2_def js_padStart_def js_toString_def)

lemma js_nat_digits_below_100:
  assumes "n < 100"
  shows "length (js_nat_digits n) \<le> 2"
proof (cases "n < 10")
  case True
  then show ?thesis by (subst js_nat_digits.simps) simp
next
  case False
  have "n div 10 < 10" using assms by simp
  then have "js_nat_digits (n div 10) = [char_of (48 + n div 10)]"
    by (subst js_nat_digits.simps) simp
  then show ?thesis using False by (subst js_nat_digits.simps) simp
qed

lemma pad2_two_digits:
  assumes "0 \<le> n" "n < 100"
  shows "length (pad2 n) = 2 \<and> list_all js_decimal (pad2 n)"
proof -
  have "length (js_nat_digits (nat n)) \<le> 2" using assms by (intro js_nat_digits_below_100) simp
  moreover have "js_decimal CHR ''0''" by (simp add: js_decimal_code)
  ultimately show ?thesis using assms js_nat_digits_decimal[of "nat n"]
    by (auto simp: pad2_def js_padStart_def js_toString_def list_all_iff)
qed

lemma parse_part_nonneg: "CHR ''-'' \<notin> set p \<Longrightarrow> 0 \<le> parse_part p"
  using set_js_trim[of p] by (auto simp: parse_part_def intro: js_or_zero_nonneg)

lemma parseTimeInput_parts_nonneg:
  assumes "\<forall>p\<in>set (js_split CHR '':'' input). 0 \<le> parse_part p"
  shows "nonneg_time (parseTimeInput input)"
proof -
  have "\<forall>i < length (js_split CHR '':'' input). 0 \<le> parse_part (js_split CHR '':'' input ! i)"
    using assms by simp
  then show ?thesis by (auto simp: parseTimeInput_def nonneg_time_def Let_def)
qed

lemma parse_part_pad2: "parse_part (pad2 n) = n"
  using pad2_no_space[of n]
  by (simp add: parse_part_def js_simps js_or_zero_def
      js_parseInt_padStart_toString[folded pad2_def])

lemma parseTimeInput_two_parts:
  "js_split CHR '':'' input = [a, b] \<Longrightarrow>
   parseTimeInput input = \<lparr>hours = 0, minutes = parse_part a, seconds = parse_part b\<rparr>"
  by (simp add: parseTimeInput_def)

lemma parseTimeInput_three_parts:
  "js_split CHR '':'' input = [a, b, c] \<Longrightarrow>
   parseTimeInput input = \<lparr>hours = parse_part a, minutes = parse_part b, seconds = parse_part c\<rparr>"
  by (simp add: parseTimeInput_def)

lemma formatTime_split:
  "js_split CHR '':'' (formatTime t) =
     (if hours t > 0 then [pad2 (hours t), pad2 (minutes t), pad2 (seconds t)]
      else [pad2 (minutes t), pad2 (seconds t)])"
  by (simp add: formatTime_def js_simps pad2_no_colon)

text \<open>C27: The \<open>MM:SS\<close> form: a text made of two colon-free pieces around one
  colon is read as minutes and seconds, each piece by the part parser, with
  hours 0.\<close>

lemma parseTimeInput_minutes_seconds:
  assumes "CHR '':'' \<notin> set a" "CHR '':'' \<notin> set b"
  shows "parseTimeInput (a @ CHR '':'' # b) =
           \<lparr>hours = 0, minutes = parse_part a, seconds = parse_part b\<rparr>"
  using assms by (simp add: parseTimeInput_two_parts js_simps)

text \<open>C28: The \<open>HH:MM:SS\<close> form: three colon-free pieces separated by two colons
  are read as hours, minutes and seconds in that order.\<close>

lemma parseTimeInput_hours_minutes_seconds:
  assumes "CHR '':'' \<notin> set a" "CHR '':'' \<notin> set b" "CHR '':'' \<notin> set c"
  shows "parseTimeInput (a @ CHR '':'' # b @ CHR '':'' # c) =
           \<lparr>hours = parse_part a, minutes = parse_part b, seconds = parse_part c\<rparr>"
  using assms by (simp add: parseTimeInput_three_parts js_simps)

text \<open>C30: An input with neither one nor two colons (one piece, or four or more) is
  read as the zero time: no error is raised.\<close>

lemma parseTimeInput_other_count:
  "count_list input CHR '':'' \<notin> {1, 2} \<Longrightarrow>
   parseTimeInput input = \<lparr>hours = 0, minutes = 0, seconds = 0\<rparr>"
  by (simp add: parseTimeInput_def length_js_split)

text \<open>C31: An input without a minus sign yields a time whose three fields are
  non-negative: every piece parses to a natural number or to 0.\<close>

lemma parseTimeInput_nonneg:
  "CHR ''-'' \<notin> set input \<Longrightarrow> nonneg_time (parseTimeInput input)"
proof -
  assume m: "CHR ''-'' \<notin> set input"
  have "CHR ''-'' \<notin> set p" if "p \<in> set (js_split CHR '':'' input)" for p
    using m js_split_pieces_subset that by blast
  then show ?thesis by (blast intro: parseTimeInput_parts_nonneg parse_part_nonneg)
qed

text \<open>C11: Round trip: reading back the display text of a time with non-negative
  hours gives that time again. The minutes and seconds may have any sign and
  any size; hours below zero are dropped by the \<open>MM:SS\<close> format, so that
  hypothesis is needed.\<close>

lemma parseTimeInput_formatTime:
  "0 \<le> hours t \<Longrightarrow> parseTimeInput (formatTime t) = t"
proof (cases "hours t > 0")
  case True
  then show ?thesis
    by (simp add: formatTime_split parseTimeInput_three_parts parse_part_pad2)
next
  case False
  moreover assume "0 \<le> hours t"
  ultimately have "hours t = 0" by simp
  then show ?thesis
    by (simp add: formatTime_split parseTimeInput_two_parts parse_part_pad2)
qed

text \<open>C36: Where the parser goes beyond the specification's "numeric parts":
  without a radix, \<^verbatim>\<open>parseInt\<close> reads a part that starts with
  \<^verbatim>\<open>0x\<close> in radix 16, so the part parser gives the hexadecimal value of
  every non-empty run of hexadecimal digits after \<^verbatim>\<open>0x\<close> (\<^verbatim>\<open>0x1f\<close> is 31),
  not 0 as a decimal reading of \<^verbatim>\<open>0x\<close> would.\<close>

theorem parse_part_hex:
  assumes "ds \<noteq> []" "list_all (\<lambda>c. js_digit_value c < 16) ds"
  shows "parse_part (''0x'' @ ds) = int (js_digits_value 16 ds)"
proof -
  have "\<forall>c\<in>set (''0x'' @ ds). \<not> js_is_space c"
    using assms(2) js_space_digit_value by (fastforce simp: list_all_iff js_is_space_def)
  then show ?thesis using js_parseInt_hex[OF assms]
    by (simp add: parse_part_def js_simps js_or_zero_def)
qed

text \<open>C12: The display has the specified shape: a time whose fields lie in
  \<open>[0, 100)\<close> is displayed as two-digit fields separated by colons, three of
  them when there are hours and two otherwise. (At 100 hours the hour field
  has three digits; the specification does not say what to show.)\<close>

theorem formatTime_clock_text:
  assumes "0 \<le> hours t" "hours t < 100" "0 \<le> minutes t" "minutes t < 100"
    "0 \<le> seconds t" "seconds t < 100"
  shows "clock_text (formatTime t) \<and>
         length (js_split CHR '':'' (formatTime t)) = (if hours t > 0 then 3 else 2)"
  using assms pad2_two_digits[of "hours t"] pad2_two_digits[of "minutes t"]
    pad2_two_digits[of "seconds t"]
  by (simp add: clock_text_def formatTime_split)

lemma formatTime_hundred_hours:
  "formatTime \<lparr>hours = 100, minutes = 0, seconds = 0\<rparr> = ''100:00:00'' \<and>
   \<not> clock_text (formatTime \<lparr>hours = 100, minutes = 0, seconds = 0\<rparr>)"
  by code_simp

subsection \<open>Witnesses at concrete inputs\<close>

lemma parseTimeInput_other_count_witness:
  "count_list ''1:2:3:4'' CHR '':'' \<notin> {1, 2} \<and>
   parseTimeInput ''1:2:3:4'' = \<lparr>hours = 0, minutes = 0, seconds = 0\<rparr>"
proof -
  have h: "count_list ''1:2:3:4'' CHR '':'' \<notin> {1, 2}" by simp
  show ?thesis using parseTimeInput_other_count[OF h] h by simp
qed

lemma parseTimeInput_nonneg_witness:
  "CHR ''-'' \<notin> set ''12:x:7'' \<and> nonneg_time (parseTimeInput ''12:x:7'')"
proof -
  have h: "CHR ''-'' \<notin> set ''12:x:7''" by simp
  show ?thesis using parseTimeInput_nonneg[OF h] h by simp
qed

lemma parseTimeInput_formatTime_witness:
  "0 \<le> hours \<lparr>hours = 1, minutes = -3, seconds = 75\<rparr> \<and>
   parseTimeInput (formatTime \<lparr>hours = 1, minutes = -3, seconds = 75\<rparr>)
     = \<lparr>hours = 1, minutes = -3, seconds = 75\<rparr>"
proof -
  have h: "0 \<le> hours \<lparr>hours = 1, minutes = -3, seconds = 75\<rparr>" by simp
  show ?thesis using parseTimeInput_formatTime[OF h] h by simp
qed

lemma parseTimeInput_minutes_seconds_witness:
  "CHR '':'' \<notin> set ''05'' \<and> CHR '':'' \<notin> set '' 7x'' \<and>
   parseTimeInput (''05'' @ CHR '':'' # '' 7x'') = \<lparr>hours = 0, minutes = 5, seconds = 7\<rparr>"
proof -
  have h: "CHR '':'' \<notin> set ''05''" "CHR '':'' \<notin> set '' 7x''" by simp_all
  have p: "parse_part ''05'' = 5" "parse_part '' 7x'' = 7" by code_simp+
  show ?thesis using parseTimeInput_minutes_seconds[OF h] h p by simp
qed

lemma parseTimeInput_hours_minutes_seconds_witness:
  "CHR '':'' \<notin> set ''1'' \<and> CHR '':'' \<notin> set ''-2'' \<and> CHR '':'' \<notin> set ''z'' \<and>
   parseTimeInput (''1'' @ CHR '':'' # ''-2'' @ CHR '':'' # ''z'')
     = \<lparr>hours = 1, minutes = -2, seconds = 0\<rparr>"
proof -
  have h: "CHR '':'' \<notin> set ''1''" "CHR '':'' \<notin> set ''-2''" "CHR '':'' \<notin> set ''z''"
    by simp_all
  have p: "parse_part ''1'' = 1" "parse_part ''-2'' = -2" "parse_part ''z'' = 0" by code_simp+
  show ?thesis using parseTimeInput_hours_minutes_seconds[OF h] h p by simp
qed

theorem formatTime_clock_text_witness:
  "clock_text (formatTime \<lparr>hours = 2, minutes = 5, seconds = 9\<rparr>) \<and>
   formatTime \<lparr>hours = 2, minutes = 5, seconds = 9\<rparr> = ''02:05:09''"
proof -
  have e: "formatTime \<lparr>hours = 2, minutes = 5, seconds = 9\<rparr> = ''02:05:09''" by code_simp
  show ?thesis using formatTime_clock_text[of "\<lparr>hours = 2, minutes = 5, seconds = 9\<rparr>"] e by simp
qed

theorem parse_part_hex_witness:
  "''1f'' \<noteq> [] \<and> list_all (\<lambda>c. js_digit_value c < 16) ''1f'' \<and> parse_part ''0x1f'' = 31"
proof -
  have h: "''1f'' \<noteq> []" "list_all (\<lambda>c. js_digit_value c < 16) ''1f''"
    by (simp_all add: js_digit_value_def Let_def)
  have "js_digits_value 16 ''1f'' = 31" by (simp add: js_digits_value_def js_digit_value_def Let_def)
  then show ?thesis using parse_part_hex[OF h] h by simp
qed

end
