(* ===== verification/Countdown.thy ===== *)
theory Countdown
  imports Duration
begin

text \<open>
  The Countdown Engine's arithmetic: the state updater that the one-second
  interval passes to \<^verbatim>\<open>setTime\<close> (App.tsx lines 56--76). Its first branch
  (lines 59--65) recognises the zero time and hands over to the completion
  effects, which the widget theory models; the rest (lines 67--75) decrements
  with borrow. Against it stands the abstract view of a time as a number of
  seconds, \<open>total_seconds\<close>, with its canonical inverse
  \<open>of_seconds\<close>.
\<close>

text \<open>What the updater decides: the time was zero (the completion branch, which
  returns \<^verbatim>\<open>prevTime\<close> unchanged), or it produced the next time.\<close>

datatype tick_outcome = Expired | Decremented TimeState

text \<open>Lines 67--75: borrow from minutes, then from hours; a time with no positive
  field is returned unchanged (line 75).\<close>

definition countdown_step :: "TimeState \<Rightarrow> TimeState" where
  "countdown_step t =
     (if seconds t > 0 then t\<lparr>seconds := seconds t - 1\<rparr>
      else if minutes t > 0 then t\<lparr>minutes := minutes t - 1, seconds := 59\<rparr>
      else if hours t > 0 then \<lparr>hours = hours t - 1, minutes = 59, seconds = 59\<rparr>
      else t)"

text \<open>Lines 56--76: the whole updater.\<close>

definition interval_tick :: "TimeState \<Rightarrow> tick_outcome" where
  "interval_tick t = (if is_zero_time t then Expired else Decremented (countdown_step t))"

subsection \<open>Abstract view: a number of seconds\<close>

definition total_seconds :: "TimeState \<Rightarrow> int" where
  "total_seconds t = 3600 * hours t + 60 * minutes t + seconds t"

definition of_seconds :: "int \<Rightarrow> TimeState" where
  "of_seconds n = \<lparr>hours = n div 3600, minutes = n mod 3600 div 60, seconds = n mod 60\<rparr>"

text \<open>A time in canonical form: non-negative hours, minutes and seconds below 60.\<close>

definition normalized_time :: "TimeState \<Rightarrow> bool" where
  "normalized_time t \<longleftrightarrow>
     0 \<le> hours t \<and> 0 \<le> minutes t \<and> minutes t < 60 \<and> 0 \<le> seconds t \<and> seconds t < 60"


subsection \<open>The decrement against the abstract view\<close>

lemma nonneg_zero_iff_total:
  "nonneg_time t \<Longrightarrow> is_zero_time t \<longleftrightarrow> total_seconds t = 0"
  by (auto simp: nonneg_time_def is_zero_time_def total_seconds_def)

lemma nonneg_total_seconds: "nonneg_time t \<Longrightarrow> 0 \<le> total_seconds t"
  by (simp add: nonneg_time_def total_seconds_def)

lemma countdown_step_normalized:
  "normalized_time t \<Longrightarrow> \<not> is_zero_time t \<Longrightarrow> normalized_time (countdown_step t)"
  by (auto simp: countdown_step_def normalized_time_def is_zero_time_def)

lemma normalized_nonneg: "normalized_time t \<Longrightarrow> nonneg_time t"
  by (simp add: normalized_time_def nonneg_time_def)

lemma of_seconds_total_seconds:
  assumes "normalized_time t"
  shows "of_seconds (total_seconds t) = t"
proof -
  let ?r = "60 * minutes t + seconds t"
  have r: "0 \<le> ?r" "?r < 3600" using assms by (simp_all add: normalized_time_def)
  have tot: "total_seconds t = 3600 * hours t + ?r" by (simp add: total_seconds_def)
  have hm: "(3600 * hours t + ?r) div 3600 = hours t \<and> (3600 * hours t + ?r) mod 3600 = ?r"
    using r by (rule div_mod_unique_int)
  have ms: "?r div 60 = minutes t \<and> ?r mod 60 = seconds t"
    using assms div_mod_unique_int[of "seconds t" 60 "minutes t"]
    by (simp add: normalized_time_def)
  have "(3600 * hours t + ?r) mod 3600 mod 60 = (3600 * hours t + ?r) mod 60"
    by (rule mod_mod_cancel) simp
  then have "(3600 * hours t + ?r) mod 60 = seconds t"
    using hm ms by simp
  then show ?thesis using tot hm ms by (simp add: of_seconds_def)
qed

lemma total_seconds_of_seconds:
  "total_seconds (of_seconds n) = n"
proof -
  have "n mod 3600 = 60 * (n mod 3600 div 60) + n mod 3600 mod 60" by simp
  moreover have "n mod 3600 mod 60 = n mod 60" by (simp add: mod_mod_cancel)
  moreover have "3600 * (n div 3600) + n mod 3600 = n" by (rule mult_div_mod_eq)
  ultimately have "3600 * (n div 3600) + 60 * (n mod 3600 div 60) + n mod 60 = n"
    by linarith
  then show ?thesis by (simp add: of_seconds_def total_seconds_def)
qed

lemma countdown_step_refines:
  assumes "nonneg_time t" "\<not> is_zero_time t"
  shows "nonneg_time (countdown_step t) \<and> total_seconds (countdown_step t) = total_seconds t - 1"
  using assms
  by (auto simp: countdown_step_def nonneg_time_def is_zero_time_def total_seconds_def)

lemma countdown_step_iter:
  assumes "nonneg_time t" "int k \<le> total_seconds t"
  shows "nonneg_time ((countdown_step ^^ k) t) \<and>
         total_seconds ((countdown_step ^^ k) t) = total_seconds t - int k"
  using assms
proof (induction k)
  case 0
  then show ?case by simp
next
  case (Suc k)
  then have ih: "nonneg_time ((countdown_step ^^ k) t)"
      "total_seconds ((countdown_step ^^ k) t) = total_seconds t - int k" by simp_all
  with Suc.prems have "\<not> is_zero_time ((countdown_step ^^ k) t)"
    by (simp add: nonneg_zero_iff_total)
  with ih countdown_step_refines show ?case by simp
qed

text \<open>C2: Refinement of the interval updater: read through \<open>total_seconds\<close>, the
  updater on a time with non-negative fields is the abstract countdown on a
  number of seconds: at 0 it reports expiry and keeps the time, above 0 it
  yields a time with non-negative fields and one second less.\<close>

theorem interval_tick_refines:
  assumes "nonneg_time t"
  shows "(case interval_tick t of
            Expired \<Rightarrow> total_seconds t = 0
          | Decremented t' \<Rightarrow> 0 < total_seconds t \<and> nonneg_time t' \<and>
                              total_seconds t' = total_seconds t - 1)"
proof (cases "is_zero_time t")
  case True
  then show ?thesis using assms by (simp add: interval_tick_def nonneg_zero_iff_total)
next
  case False
  have "0 < total_seconds t"
    using False assms nonneg_total_seconds nonneg_zero_iff_total by fastforce
  with False show ?thesis
    using countdown_step_refines[OF assms False] by (simp add: interval_tick_def)
qed

theorem interval_tick_refines_witness:
  "nonneg_time \<lparr>hours = 1, minutes = 0, seconds = 0\<rparr> \<and>
   interval_tick \<lparr>hours = 1, minutes = 0, seconds = 0\<rparr>
     = Decremented \<lparr>hours = 0, minutes = 59, seconds = 59\<rparr> \<and>
   total_seconds \<lparr>hours = 0, minutes = 59, seconds = 59\<rparr> = 3599"
proof -
  let ?t = "\<lparr>hours = 1, minutes = 0, seconds = 0\<rparr>"
  have h: "nonneg_time ?t" by (simp add: nonneg_time_def)
  have e: "interval_tick ?t = Decremented \<lparr>hours = 0, minutes = 59, seconds = 59\<rparr>"
    by (simp add: interval_tick_def is_zero_time_def countdown_step_def)
  show ?thesis using interval_tick_refines[OF h] h e by (simp add: total_seconds_def)
qed

text \<open>C10: Termination of the countdown: from a time with non-negative fields the
  decrement reaches the zero time after exactly \<open>total_seconds\<close> steps, and at
  no earlier step.\<close>

theorem countdown_reaches_zero:
  assumes "nonneg_time t"
  shows "is_zero_time ((countdown_step ^^ nat (total_seconds t)) t) \<and>
         (\<forall>k < nat (total_seconds t). \<not> is_zero_time ((countdown_step ^^ k) t))"
proof -
  have n: "0 \<le> total_seconds t" using assms by (rule nonneg_total_seconds)
  have "is_zero_time ((countdown_step ^^ nat (total_seconds t)) t)"
    using countdown_step_iter[OF assms, of "nat (total_seconds t)"] n
    by (simp add: nonneg_zero_iff_total)
  moreover have "\<not> is_zero_time ((countdown_step ^^ k) t)" if "k < nat (total_seconds t)" for k
    using countdown_step_iter[OF assms, of k] that n
    by (simp add: nonneg_zero_iff_total)
  ultimately show ?thesis by blast
qed

theorem countdown_reaches_zero_witness:
  "nonneg_time \<lparr>hours = 0, minutes = 1, seconds = 30\<rparr> \<and>
   is_zero_time ((countdown_step ^^ 90) \<lparr>hours = 0, minutes = 1, seconds = 30\<rparr>) \<and>
   \<not> is_zero_time ((countdown_step ^^ 89) \<lparr>hours = 0, minutes = 1, seconds = 30\<rparr>)"
proof -
  let ?t = "\<lparr>hours = 0, minutes = 1, seconds = 30\<rparr>"
  have h: "nonneg_time ?t" by (simp add: nonneg_time_def)
  have n: "nat (total_seconds ?t) = 90" by (simp add: total_seconds_def)
  show ?thesis using countdown_reaches_zero[OF h] h unfolding n by simp
qed

text \<open>C32: On a time in canonical form the decrement is the canonical form of
  one second less: \<open>countdown_step\<close> implements \<open>n \<mapsto> n - 1\<close> on seconds.\<close>

lemma countdown_step_canonical:
  assumes "normalized_time t" "\<not> is_zero_time t"
  shows "countdown_step t = of_seconds (total_seconds t - 1)"
proof -
  have "nonneg_time t" using assms(1) by (simp add: normalized_time_def nonneg_time_def)
  moreover have "normalized_time (countdown_step t)"
    using assms by (rule countdown_step_normalized)
  ultimately show ?thesis
    using countdown_step_refines[of t] assms(2) of_seconds_total_seconds by metis
qed

lemma countdown_step_canonical_witness:
  "normalized_time \<lparr>hours = 2, minutes = 0, seconds = 0\<rparr> \<and>
   \<not> is_zero_time \<lparr>hours = 2, minutes = 0, seconds = 0\<rparr> \<and>
   countdown_step \<lparr>hours = 2, minutes = 0, seconds = 0\<rparr> = of_seconds 7199"
proof -
  let ?t = "\<lparr>hours = 2, minutes = 0, seconds = 0\<rparr>"
  have h: "normalized_time ?t" "\<not> is_zero_time ?t"
    by (simp_all add: normalized_time_def is_zero_time_def)
  show ?thesis using countdown_step_canonical[OF h] h by (simp add: total_seconds_def)
qed

subsection \<open>Times with no positive field\<close>

lemma countdown_step_stuck:
  assumes "hours t \<le> 0" "minutes t \<le> 0" "seconds t \<le> 0"
  shows "countdown_step t = t"
  using assms by (simp add: countdown_step_def)


text \<open>C29: A defect of the borrow on fields the parser lets through: with hours
  left and no positive minute or second, the tick jumps to \<open>h-1:59:59\<close> whatever
  the minute and second fields were, so with a negative minute field the
  remaining time grows (from \<^verbatim>\<open>1:-3:00\<close>, 3420 seconds, to
  \<^verbatim>\<open>0:59:59\<close>, 3599 seconds) instead of falling by one second.\<close>

theorem countdown_step_negative_borrow:
  assumes "hours t > 0" "minutes t \<le> 0" "seconds t \<le> 0"
  shows "countdown_step t = \<lparr>hours = hours t - 1, minutes = 59, seconds = 59\<rparr> \<and>
         total_seconds (countdown_step t) = total_seconds t - 1 - 60 * minutes t - seconds t"
  using assms by (simp add: countdown_step_def total_seconds_def)

theorem countdown_step_negative_borrow_witness:
  "countdown_step \<lparr>hours = 1, minutes = -3, seconds = 0\<rparr> = \<lparr>hours = 0, minutes = 59, seconds = 59\<rparr> \<and>
   total_seconds \<lparr>hours = 1, minutes = -3, seconds = 0\<rparr> = 3420 \<and>
   total_seconds (countdown_step \<lparr>hours = 1, minutes = -3, seconds = 0\<rparr>) = 3599"
  using countdown_step_negative_borrow[of "\<lparr>hours = 1, minutes = -3, seconds = 0\<rparr>"]
  by (simp add: total_seconds_def)

end
