(* ===== verification/Notifier.thy ===== *)
theory Notifier
  imports Prelude Complex_Main
begin

text \<open>
  The Alert Notifier (App.tsx lines 24--50): the audio effect creates a Web
  Audio context, and \<^verbatim>\<open>createBeepSound\<close> builds, for every play, an
  oscillator routed through a gain node to the speakers, schedules its pitch and
  its volume envelope, and starts and stops it. The audio context is an explicit
  state: its clock \<^verbatim>\<open>currentTime\<close>, the number of nodes created, and the
  log of the calls the code makes on the nodes, in order. What those calls mean
  (the routing graph, the value of an automated parameter at a time, when an
  oscillator sounds) is the Web Audio API's, modelled from its specification.
\<close>

datatype osc_type = Sine | Square | Sawtooth | Triangle

datatype audio_node = OscillatorNode nat | GainNode nat | Destination

datatype audio_param = Frequency audio_node | Gain audio_node

datatype automation =
    SetValueAtTime real real                 \<comment> \<open>value, time\<close>
  | ExponentialRampToValueAtTime real real   \<comment> \<open>value, end time\<close>

datatype audio_call =
    Connect audio_node audio_node
  | SetType audio_node osc_type
  | Automate audio_param automation
  | Start audio_node real
  | Stop audio_node real

record audio_ctx =
  currentTime :: real
  nodeCount :: nat
  calls :: "audio_call list"

subsection \<open>The calls the code makes\<close>

text \<open>Lines 25--27: a fresh context, its clock at 0.\<close>

definition new_audio_context :: audio_ctx where
  "new_audio_context = \<lparr>currentTime = 0, nodeCount = 0, calls = []\<rparr>"

definition createOscillator :: "audio_ctx \<Rightarrow> audio_node \<times> audio_ctx" where
  "createOscillator c = (OscillatorNode (nodeCount c), c\<lparr>nodeCount := Suc (nodeCount c)\<rparr>)"

definition createGain :: "audio_ctx \<Rightarrow> audio_node \<times> audio_ctx" where
  "createGain c = (GainNode (nodeCount c), c\<lparr>nodeCount := Suc (nodeCount c)\<rparr>)"

definition emit :: "audio_call \<Rightarrow> audio_ctx \<Rightarrow> audio_ctx" where
  "emit a c = c\<lparr>calls := calls c @ [a]\<rparr>"

text \<open>Lines 29--47, in the order of the code: two nodes, two connections, the
  pitch at 800\,Hz from now, the sine waveform, the volume at 0.3 from now
  ramping exponentially to 0.01 one second later, and the oscillator running
  for that second.\<close>

definition beep_calls :: "audio_node \<Rightarrow> audio_node \<Rightarrow> real \<Rightarrow> audio_call list" where
  "beep_calls osc g t =
     [Connect osc g, Connect g Destination,
      Automate (Frequency osc) (SetValueAtTime 800 t),
      SetType osc Sine,
      Automate (Gain g) (SetValueAtTime 0.3 t),
      Automate (Gain g) (ExponentialRampToValueAtTime 0.01 (t + 1)),
      Start osc t, Stop osc (t + 1)]"

definition createBeepSound :: "audio_ctx \<Rightarrow> audio_ctx" where
  "createBeepSound c =
     (let (osc, c1) = createOscillator c;
          (g, c2) = createGain c1
      in fold emit (beep_calls osc g (currentTime c)) c2)"

subsection \<open>What the calls mean (Web Audio API)\<close>

text \<open>The routing graph: one edge per \<^verbatim>\<open>connect\<close>.\<close>

fun connections :: "audio_call list \<Rightarrow> (audio_node \<times> audio_node) list" where
  "connections [] = []"
| "connections (Connect a b # cs) = (a, b) # connections cs"
| "connections (_ # cs) = connections cs"

text \<open>The automation events of a parameter, in the order they were scheduled.\<close>

fun param_events :: "audio_param \<Rightarrow> audio_call list \<Rightarrow> automation list" where
  "param_events p [] = []"
| "param_events p (Automate q e # cs) = (if p = q then e # param_events p cs else param_events p cs)"
| "param_events p (_ # cs) = param_events p cs"

text \<open>The value of a parameter at time \<open>\<tau>\<close>, from its value \<open>v\<close> at the time
  \<open>T0\<close> of the previous event and the events still to come: a set value holds
  from its time on; an exponential ramp to \<open>x\<close> ending at \<open>T\<close> goes as
  \<open>v (x / v) ^ ((\<tau> - T0) / (T - T0))\<close> up to \<open>T\<close>.\<close>

fun param_value :: "real \<Rightarrow> real \<Rightarrow> automation list \<Rightarrow> real \<Rightarrow> real" where
  "param_value v T0 [] \<tau> = v"
| "param_value v T0 (SetValueAtTime x T # es) \<tau> = (if \<tau> < T then v else param_value x T es \<tau>)"
| "param_value v T0 (ExponentialRampToValueAtTime x T # es) \<tau> =
     (if \<tau> < T then v * (x / v) powr ((\<tau> - T0) / (T - T0)) else param_value x T es \<tau>)"

text \<open>The default values: 440\,Hz for a frequency, 1 for a gain.\<close>

definition param_at :: "audio_ctx \<Rightarrow> audio_param \<Rightarrow> real \<Rightarrow> real" where
  "param_at c p \<tau> =
     param_value (case p of Frequency _ \<Rightarrow> 440 | Gain _ \<Rightarrow> 1) 0 (param_events p (calls c)) \<tau>"

text \<open>An oscillator sounds from a time at which it was started up to a time at
  which it is stopped.\<close>

definition sounding :: "audio_ctx \<Rightarrow> audio_node \<Rightarrow> real \<Rightarrow> bool" where
  "sounding c n \<tau> \<longleftrightarrow>
     list_ex (\<lambda>a. case a of Start m ts \<Rightarrow> m = n \<and> ts \<le> \<tau> | _ \<Rightarrow> False) (calls c) \<and>
     list_ex (\<lambda>a. case a of Stop m te \<Rightarrow> m = n \<and> \<tau> < te | _ \<Rightarrow> False) (calls c)"

text \<open>Well-formed context: every node named in the log has been created.\<close>

fun node_id :: "audio_node \<Rightarrow> nat option" where
  "node_id (OscillatorNode i) = Some i"
| "node_id (GainNode i) = Some i"
| "node_id Destination = None"

fun param_node :: "audio_param \<Rightarrow> audio_node" where
  "param_node (Frequency n) = n"
| "param_node (Gain n) = n"

fun call_nodes :: "audio_call \<Rightarrow> audio_node list" where
  "call_nodes (Connect a b) = [a, b]"
| "call_nodes (SetType n _) = [n]"
| "call_nodes (Automate p _) = [param_node p]"
| "call_nodes (Start n _) = [n]"
| "call_nodes (Stop n _) = [n]"

definition audio_wf :: "audio_ctx \<Rightarrow> bool" where
  "audio_wf c \<longleftrightarrow>
     list_all (\<lambda>a. list_all (\<lambda>n. case node_id n of None \<Rightarrow> True | Some i \<Rightarrow> i < nodeCount c)
                              (call_nodes a)) (calls c)"

text \<open>Tones played: the oscillators started.\<close>

fun tones :: "audio_call list \<Rightarrow> nat" where
  "tones [] = 0"
| "tones (Start _ _ # cs) = Suc (tones cs)"
| "tones (_ # cs) = tones cs"

subsection \<open>Effects of the calls\<close>

lemma createBeepSound_ctx:
  "currentTime (createBeepSound c) = currentTime c"
  "nodeCount (createBeepSound c) = Suc (Suc (nodeCount c))"
  "calls (createBeepSound c) =
     calls c @ beep_calls (OscillatorNode (nodeCount c)) (GainNode (Suc (nodeCount c))) (currentTime c)"
  by (simp_all add: createBeepSound_def createOscillator_def createGain_def emit_def beep_calls_def)

lemma param_events_append:
  "param_events p (xs @ ys) = param_events p xs @ param_events p ys"
  by (induction p xs rule: param_events.induct) auto

lemma connections_append:
  "connections (xs @ ys) = connections xs @ connections ys"
  by (induction xs rule: connections.induct) auto

lemma tones_append: "tones (xs @ ys) = tones xs + tones ys"
  by (induction xs rule: tones.induct) auto

lemma tones_createBeepSound: "tones (calls (createBeepSound c)) = Suc (tones (calls c))"
  by (simp add: createBeepSound_ctx tones_append beep_calls_def)


lemma param_events_absent:
  "list_all (\<lambda>a. n \<notin> set (call_nodes a)) cs \<Longrightarrow> param_node p = n \<Longrightarrow> param_events p cs = []"
  by (induction p cs rule: param_events.induct) auto

subsection \<open>Freshness of the nodes of a play\<close>

lemma audio_wf_fresh:
  assumes "audio_wf c" "nodeCount c \<le> i"
  shows "list_all (\<lambda>a. OscillatorNode i \<notin> set (call_nodes a) \<and> GainNode i \<notin> set (call_nodes a)) (calls c)"
  using assms unfolding audio_wf_def list_all_iff
  by (fastforce)


lemma sounding_append_absent:
  assumes "list_all (\<lambda>a. n \<notin> set (call_nodes a)) cs"
  shows "sounding (c\<lparr>calls := cs @ ds\<rparr>) n \<tau> = sounding (c\<lparr>calls := ds\<rparr>) n \<tau>"
proof -
  have "\<not> list_ex (\<lambda>a. case a of Start m ts \<Rightarrow> m = n \<and> P m ts | _ \<Rightarrow> False) cs" for P
    using assms by (induction cs) (auto split: audio_call.splits)
  moreover have "\<not> list_ex (\<lambda>a. case a of Stop m te \<Rightarrow> m = n \<and> P m te | _ \<Rightarrow> False) cs" for P
    using assms by (induction cs) (auto split: audio_call.splits)
  ultimately show ?thesis by (simp add: sounding_def)
qed

subsection \<open>The tone\<close>

lemma beep_gain:
  assumes "t \<le> \<tau>" "\<tau> \<le> t + 1"
  shows "param_value 1 0 (param_events (Gain g) (beep_calls osc g t)) \<tau> = 3/10 * (1/30) powr (\<tau> - t)"
proof (cases "\<tau> = t + 1")
  case True
  then show ?thesis by (simp add: beep_calls_def)
next
  case False
  then show ?thesis using assms by (simp add: beep_calls_def)
qed

lemma audio_wf_new: "audio_wf new_audio_context"
  by (simp add: audio_wf_def new_audio_context_def)

lemma audio_wf_createBeepSound: "audio_wf c \<Longrightarrow> audio_wf (createBeepSound c)"
  unfolding audio_wf_def createBeepSound_ctx list_all_append
  by (auto simp: beep_calls_def elim!: list.pred_mono_strong split: option.splits)

lemma beep_fresh:
  assumes "audio_wf c"
  shows "list_all (\<lambda>a. OscillatorNode (nodeCount c) \<notin> set (call_nodes a)) (calls c)"
    "list_all (\<lambda>a. GainNode (Suc (nodeCount c)) \<notin> set (call_nodes a)) (calls c)"
  using audio_wf_fresh[OF assms, of "nodeCount c"] audio_wf_fresh[OF assms, of "Suc (nodeCount c)"]
  by (auto elim: list.pred_mono_strong)

lemma connections_from_fresh:
  assumes "list_all (\<lambda>a. n \<notin> set (call_nodes a)) cs"
  shows "filter (\<lambda>e. fst e = n) (connections cs) = []"
  using assms by (induction cs rule: connections.induct) auto

text \<open>C17: Every play of the tone on a well-formed context creates a fresh
  oscillator that is routed only through its own fresh gain node, and that node
  only to the speakers; its pitch is 800\,Hz from the current time on; it sounds
  exactly during the second that starts at the current time; one more tone is
  logged, and the context stays well-formed.\<close>

theorem beep_tone:
  assumes "audio_wf c"
  defines "osc \<equiv> OscillatorNode (nodeCount c)" and "g \<equiv> GainNode (Suc (nodeCount c))"
      and "c' \<equiv> createBeepSound c" and "t \<equiv> currentTime c"
  shows "filter (\<lambda>e. fst e = osc) (connections (calls c')) = [(osc, g)] \<and>
         filter (\<lambda>e. fst e = g) (connections (calls c')) = [(g, Destination)] \<and>
         (osc, Destination) \<in> (set (connections (calls c')))\<^sup>+ \<and>
         (\<forall>\<tau>. t \<le> \<tau> \<longrightarrow> param_at c' (Frequency osc) \<tau> = 800) \<and>
         (\<forall>\<tau>. sounding c' osc \<tau> \<longleftrightarrow> t \<le> \<tau> \<and> \<tau> < t + 1) \<and>
         tones (calls c') = Suc (tones (calls c)) \<and> audio_wf c'"
proof -
  note fr = beep_fresh[OF assms(1), folded osc_def g_def]
  have calls': "calls c' = calls c @ beep_calls osc g t"
    by (simp add: c'_def osc_def g_def t_def createBeepSound_ctx)
  have e1: "filter (\<lambda>e. fst e = osc) (connections (calls c')) = [(osc, g)]"
    using connections_from_fresh[OF fr(1)] by (simp add: calls' connections_append beep_calls_def osc_def g_def)
  have e2: "filter (\<lambda>e. fst e = g) (connections (calls c')) = [(g, Destination)]"
    using connections_from_fresh[OF fr(2)] by (simp add: calls' connections_append beep_calls_def osc_def g_def)
  have "(osc, g) \<in> set (connections (calls c'))" "(g, Destination) \<in> set (connections (calls c'))"
    by (simp_all add: calls' connections_append beep_calls_def)
  then have route: "(osc, Destination) \<in> (set (connections (calls c')))\<^sup>+" by auto
  have freq: "param_at c' (Frequency osc) \<tau> = 800" if "t \<le> \<tau>" for \<tau>
    using param_events_absent[OF fr(1), of "Frequency osc"] that
    by (simp add: param_at_def calls' param_events_append beep_calls_def osc_def g_def)
  have snd: "sounding c' osc \<tau> \<longleftrightarrow> t \<le> \<tau> \<and> \<tau> < t + 1" for \<tau>
  proof -
    have "sounding c' osc \<tau> = sounding (c'\<lparr>calls := beep_calls osc g t\<rparr>) osc \<tau>"
      using sounding_append_absent[OF fr(1), where c = c' and ds = "beep_calls osc g t" and \<tau> = \<tau>]
      by (simp add: calls'[symmetric])
    then show ?thesis by (simp add: sounding_def beep_calls_def osc_def g_def)
  qed
  have "tones (calls c') = Suc (tones (calls c))"
    unfolding c'_def by (rule tones_createBeepSound)
  moreover have "audio_wf c'" unfolding c'_def using assms(1) by (rule audio_wf_createBeepSound)
  ultimately show ?thesis using e1 e2 route freq snd by blast
qed

text \<open>C18: The tone decays: the gain of its node is 0.3 when the tone starts and
  0.01 one second later, and in between it falls strictly and stays within
  these bounds.\<close>

theorem beep_decays:
  assumes "audio_wf c"
  defines "g \<equiv> GainNode (Suc (nodeCount c))" and "c' \<equiv> createBeepSound c" and "t \<equiv> currentTime c"
  shows "param_at c' (Gain g) t = 3/10 \<and> param_at c' (Gain g) (t + 1) = 1/100 \<and>
         (\<forall>\<tau>1 \<tau>2. t \<le> \<tau>1 \<and> \<tau>1 < \<tau>2 \<and> \<tau>2 \<le> t + 1 \<longrightarrow>
                   param_at c' (Gain g) \<tau>2 < param_at c' (Gain g) \<tau>1) \<and>
         (\<forall>\<tau>. t \<le> \<tau> \<and> \<tau> \<le> t + 1 \<longrightarrow>
                1/100 \<le> param_at c' (Gain g) \<tau> \<and> param_at c' (Gain g) \<tau> \<le> 3/10)"
proof -
  note fr = beep_fresh(2)[OF assms(1), folded g_def]
  have gain: "param_at c' (Gain g) \<tau> = 3/10 * (1/30) powr (\<tau> - t)" if "t \<le> \<tau>" "\<tau> \<le> t + 1" for \<tau>
    using param_events_absent[OF fr, of "Gain g"] beep_gain[OF that]
    by (simp add: c'_def g_def t_def param_at_def createBeepSound_ctx param_events_append)
  show ?thesis
  proof (intro conjI allI impI)
    show "param_at c' (Gain g) t = 3/10" by (simp add: gain)
  next
    show "param_at c' (Gain g) (t + 1) = 1/100" by (simp add: gain)
  next
    fix \<tau>1 \<tau>2 :: real assume "t \<le> \<tau>1 \<and> \<tau>1 < \<tau>2 \<and> \<tau>2 \<le> t + 1"
    then show "param_at c' (Gain g) \<tau>2 < param_at c' (Gain g) \<tau>1"
      using powr_less_mono'[of "1/30 :: real" "\<tau>1 - t" "\<tau>2 - t"] by (simp add: gain)
  next
    fix \<tau> :: real assume r: "t \<le> \<tau> \<and> \<tau> \<le> t + 1"
    have "(1/30::real) powr 1 \<le> (1/30) powr (\<tau> - t)" using r by (intro powr_mono') auto
    with r show "1/100 \<le> param_at c' (Gain g) \<tau>" by (simp add: gain)
  next
    fix \<tau> :: real assume r: "t \<le> \<tau> \<and> \<tau> \<le> t + 1"
    have "(1/30::real) powr (\<tau> - t) \<le> (1/30) powr 0" using r by (intro powr_mono') auto
    with r show "param_at c' (Gain g) \<tau> \<le> 3/10" by (simp add: gain)
  qed
qed


theorem beep_tone_witness:
  "audio_wf new_audio_context \<and>
   param_at (createBeepSound new_audio_context) (Frequency (OscillatorNode 0)) (1/2) = 800 \<and>
   sounding (createBeepSound new_audio_context) (OscillatorNode 0) (1/2) \<and>
   \<not> sounding (createBeepSound new_audio_context) (OscillatorNode 0) 1 \<and>
   tones (calls (createBeepSound new_audio_context)) = 1"
  using beep_tone[OF audio_wf_new] audio_wf_new by (simp add: new_audio_context_def)

theorem beep_decays_witness:
  "audio_wf new_audio_context \<and>
   param_at (createBeepSound new_audio_context) (Gain (GainNode 1)) 1
     < param_at (createBeepSound new_audio_context) (Gain (GainNode 1)) (1/2) \<and>
   1/100 \<le> param_at (createBeepSound new_audio_context) (Gain (GainNode 1)) 1 \<and>
   param_at (createBeepSound new_audio_context) (Gain (GainNode 1)) 0 = 3/10 \<and>
   param_at (createBeepSound new_audio_context) (Gain (GainNode 1)) 1 = 1/100"
  using beep_decays[OF audio_wf_new] audio_wf_new by (simp add: new_audio_context_def)

end
