(* ===== verification/Widget.thy ===== *)
theory Widget
  imports Countdown Notifier
begin

text \<open>
  The component \<^verbatim>\<open>CountdownTimer\<close> (App.tsx lines 10--147) as explicit state
  passing. Its \<^verbatim>\<open>useState\<close> hooks and refs become the fields of the record
  \<open>widget\<close>; the browser's timer table (which intervals are armed, and the next
  identifier \<^verbatim>\<open>setInterval\<close> returns), the number of tones played and the
  audio context of the Notifier theory are fields too, so that the effects of the code are values. Each handler is a
  function from the state it reads to the state after its \<^verbatim>\<open>set*\<close> calls
  (React applies them together before the next render). After a handler React
  re-renders and runs the timer effect (lines 53--90) when one of its
  dependencies \<^verbatim>\<open>[isRunning, isCompleted]\<close> changed: first the cleanup of the
  previous run, then the body. \<open>commit\<close> models that; \<open>dispatch\<close> is a
  handler followed by its commit.
\<close>

record widget =
  time :: TimeState               \<comment> \<open>\<^verbatim>\<open>useState<TimeState>\<close>, line 11\<close>
  isRunning :: bool               \<comment> \<open>line 16\<close>
  isCompleted :: bool             \<comment> \<open>line 17\<close>
  showAlert :: bool               \<comment> \<open>line 18\<close>
  inputValue :: js_string         \<comment> \<open>line 19\<close>
  intervalRef :: "nat option"     \<comment> \<open>\<^verbatim>\<open>intervalRef.current\<close>, line 21\<close>
  beepReady :: bool               \<comment> \<open>\<^verbatim>\<open>beepRef.current\<close> is set, line 22\<close>
  liveIntervals :: "nat list"     \<comment> \<open>intervals the browser holds armed\<close>
  nextTimerId :: nat              \<comment> \<open>identifier of the next \<^verbatim>\<open>setInterval\<close>\<close>
  beeps :: nat                    \<comment> \<open>tones played by \<^verbatim>\<open>beepRef.current.play\<close>\<close>
  audioCtx :: "audio_ctx option"  \<comment> \<open>the effect's \<^verbatim>\<open>audioContext\<close>, line 25\<close>

text \<open>The first render: the initial values of the hooks (lines 11--22), no timer.
  Browsers number intervals from 1, so every identifier is truthy.\<close>

definition initial_render :: widget where
  "initial_render =
     \<lparr>time = \<lparr>hours = 0, minutes = 5, seconds = 0\<rparr>, isRunning = False, isCompleted = False,
      showAlert = False, inputValue = ''05:00'', intervalRef = None, beepReady = False,
      liveIntervals = [], nextTimerId = 1, beeps = 0, audioCtx = None\<rparr>"

subsection \<open>The browser's interval timers\<close>

definition setInterval :: "widget \<Rightarrow> nat \<times> widget" where
  "setInterval s =
     (nextTimerId s,
      s\<lparr>liveIntervals := nextTimerId s # liveIntervals s, nextTimerId := Suc (nextTimerId s)\<rparr>)"

definition clearInterval :: "nat \<Rightarrow> widget \<Rightarrow> widget" where
  "clearInterval i s = s\<lparr>liveIntervals := removeAll i (liveIntervals s)\<rparr>"

subsection \<open>The effects\<close>

text \<open>The audio effect (lines 24--50) runs once after mounting: it creates the
  audio context and stores the tone generator \<open>createBeepSound\<close> of the
  Notifier theory, closed over that context, in \<^verbatim>\<open>beepRef\<close>.\<close>

definition audio_effect :: "widget \<Rightarrow> widget" where
  "audio_effect s = s\<lparr>audioCtx := Some new_audio_context, beepReady := True\<rparr>"

text \<open>The body of the timer effect (lines 54--83): arm an interval while running
  and not completed, otherwise clear the stored one.\<close>

definition timer_effect :: "widget \<Rightarrow> widget" where
  "timer_effect s =
     (if isRunning s \<and> \<not> isCompleted s then
        (let (i, s') = setInterval s in s'\<lparr>intervalRef := Some i\<rparr>)
      else (case intervalRef s of
              None \<Rightarrow> s
            | Some i \<Rightarrow> (clearInterval i s)\<lparr>intervalRef := None\<rparr>))"

text \<open>Its cleanup (lines 85--89): clear the stored interval, leave the ref.\<close>

definition timer_cleanup :: "widget \<Rightarrow> widget" where
  "timer_cleanup s = (case intervalRef s of None \<Rightarrow> s | Some i \<Rightarrow> clearInterval i s)"

text \<open>Mounting: the first render, then both effects in source order; the timer
  effect has no previous run to clean up.\<close>

definition mount :: widget where
  "mount = timer_effect (audio_effect initial_render)"

text \<open>Re-render after a state change: the timer effect runs again, cleanup first,
  exactly when \<^verbatim>\<open>isRunning\<close> or \<^verbatim>\<open>isCompleted\<close> changed.\<close>

definition commit :: "widget \<Rightarrow> widget \<Rightarrow> widget" where
  "commit prev s =
     (if isRunning prev = isRunning s \<and> isCompleted prev = isCompleted s then s
      else timer_effect (timer_cleanup s))"

text \<open>Unmounting runs the last cleanup.\<close>

definition teardown :: "widget \<Rightarrow> widget" where
  "teardown s = timer_cleanup s"

subsection \<open>The handlers\<close>

text \<open>The interval callback (lines 55--77): the updater of Countdown decides;
  on the zero time it stops the timer, marks completion, shows the alert and
  plays the tone (\<^verbatim>\<open>beepRef.current?.play?.()\<close>), leaving the time as it is.\<close>

definition on_interval :: "widget \<Rightarrow> widget" where
  "on_interval s =
     (case interval_tick (time s) of
        Expired \<Rightarrow> s\<lparr>isRunning := False, isCompleted := True, showAlert := True,
                     beeps := (if beepReady s then Suc (beeps s) else beeps s),
                     audioCtx := (if beepReady s then map_option createBeepSound (audioCtx s)
                                  else audioCtx s)\<rparr>
      | Decremented t \<Rightarrow> s\<lparr>time := t\<rparr>)"

text \<open>Lines 114--122: the text is stored in every case; it is parsed into the time
  only while not running.\<close>

definition handleInputChange :: "js_string \<Rightarrow> widget \<Rightarrow> widget" where
  "handleInputChange value s =
     (let s1 = s\<lparr>inputValue := value\<rparr> in
      if \<not> isRunning s then s1\<lparr>time := parseTimeInput value, isCompleted := False\<rparr> else s1)"

text \<open>Lines 124--128: an early return on the zero time; no test of
  \<^verbatim>\<open>isRunning\<close> (the disabled button is the only guard).\<close>

definition handleStart :: "widget \<Rightarrow> widget" where
  "handleStart s =
     (if is_zero_time (time s) then s else s\<lparr>isRunning := True, isCompleted := False\<rparr>)"

text \<open>Line 130.\<close>

definition handlePause :: "widget \<Rightarrow> widget" where
  "handlePause s = s\<lparr>isRunning := False\<rparr>"

text \<open>Lines 132--138.\<close>

definition handleReset :: "widget \<Rightarrow> widget" where
  "handleReset s =
     s\<lparr>isRunning := False, isCompleted := False, showAlert := False,
       time := parseTimeInput (inputValue s)\<rparr>"

text \<open>Lines 140--147.\<close>

definition handlePreset :: "js_number \<Rightarrow> widget \<Rightarrow> widget" where
  "handlePreset m s =
     (if \<not> isRunning s then
        (let newTime = \<lparr>hours = 0, minutes = m, seconds = 0\<rparr> in
         s\<lparr>time := newTime, inputValue := formatTime newTime, isCompleted := False\<rparr>)
      else s)"

text \<open>The Dismiss button of the alert (line 273).\<close>

definition handleDismiss :: "widget \<Rightarrow> widget" where
  "handleDismiss s = s\<lparr>showAlert := False\<rparr>"

text \<open>The preset buttons (lines 149--156): label and minutes.\<close>

definition presetButtons :: "(js_string \<times> js_number) list" where
  "presetButtons =
     [(''1 Min'', 1), (''5 Min'', 5), (''10 Min'', 10), (''15 Min'', 15), (''30 Min'', 30),
      (''1 Hour'', 60)]"

subsection \<open>Events and dispatch\<close>

text \<open>What can reach the component: a change of the text field, a click on one of
  the buttons, or the firing of an armed interval (by its identifier).\<close>

datatype event =
    InputChange js_string
  | StartClick
  | PauseClick
  | ResetClick
  | PresetClick js_number
  | DismissClick
  | IntervalFires nat

fun handle :: "event \<Rightarrow> widget \<Rightarrow> widget" where
  "handle (InputChange v) s = handleInputChange v s"
| "handle StartClick s = handleStart s"
| "handle PauseClick s = handlePause s"
| "handle ResetClick s = handleReset s"
| "handle (PresetClick m) s = handlePreset m s"
| "handle DismissClick s = handleDismiss s"
| "handle (IntervalFires i) s = on_interval s"

definition dispatch :: "event \<Rightarrow> widget \<Rightarrow> widget" where
  "dispatch e s = commit s (handle e s)"

end
