(* ===== verification/View.thy ===== *)
theory View
  imports Widget
begin

text \<open>
  What the component renders (App.tsx lines 158--283), reduced to the values that
  depend on the state: the displayed time, the colour scheme of the time panel,
  the ``Time's Up'' banner, the \<^verbatim>\<open>disabled\<close> attributes of the text field and
  the buttons, the labels of the presets and whether the alert modal is shown.
  Class names, icons and layout carry no behaviour and are left out. The
  enabled controls of a rendered state are the events a user can produce, which
  the session theory uses.
\<close>

text \<open>The three colour schemes of lines 187--193 and 196--202: red when completed,
  else green when running, else grey.\<close>

datatype panel_style = CompletedStyle | RunningStyle | IdleStyle

record view =
  display :: js_string            \<comment> \<open>\<^verbatim>\<open>{formatTime(time)}\<close>, line 204\<close>
  panel :: panel_style            \<comment> \<open>lines 187--202\<close>
  timesUpBanner :: bool           \<comment> \<open>\<^verbatim>\<open>{isCompleted && ...}\<close>, line 206\<close>
  inputText :: js_string          \<comment> \<open>\<^verbatim>\<open>value={inputValue}\<close>, line 177\<close>
  inputDisabled :: bool           \<comment> \<open>line 181\<close>
  startDisabled :: bool           \<comment> \<open>lines 216--219\<close>
  pauseDisabled :: bool           \<comment> \<open>line 228\<close>
  presetLabels :: "js_string list" \<comment> \<open>lines 249--258\<close>
  presetsDisabled :: bool         \<comment> \<open>line 253\<close>
  alertModal :: bool              \<comment> \<open>\<^verbatim>\<open>{showAlert && ...}\<close>, line 262\<close>

definition render :: "widget \<Rightarrow> view" where
  "render s =
     \<lparr>display = formatTime (time s),
      panel = (if isCompleted s then CompletedStyle
               else if isRunning s then RunningStyle else IdleStyle),
      timesUpBanner = isCompleted s,
      inputText = inputValue s,
      inputDisabled = isRunning s,
      startDisabled = (isRunning s \<or> is_zero_time (time s)),
      pauseDisabled = (\<not> isRunning s),
      presetLabels = map fst presetButtons,
      presetsDisabled = isRunning s,
      alertModal = showAlert s\<rparr>"

end
