(* ===== verification/Session.thy ===== *)
theory Session
  imports View
begin

text \<open>
  The widget as a state machine driven by its user and its timer: an event is
  possible in a state when the rendered page offers it (the control is not
  \<^verbatim>\<open>disabled\<close>, the modal is shown) or, for a tick, when that interval is
  armed. \<open>ui_step\<close> is one such event handled and committed; the reachable states
  are those a run from the mounted component can produce. The invariant
  \<open>widget_inv\<close> ties the two booleans of the code to the single status of the
  specification and the armed interval to the running status.
\<close>

definition event_enabled :: "widget \<Rightarrow> event \<Rightarrow> bool" where
  "event_enabled s e =
     (case e of
        InputChange v \<Rightarrow> \<not> inputDisabled (render s)
      | StartClick \<Rightarrow> \<not> startDisabled (render s)
      | PauseClick \<Rightarrow> \<not> pauseDisabled (render s)
      | ResetClick \<Rightarrow> True
      | PresetClick m \<Rightarrow> \<not> presetsDisabled (render s) \<and> m \<in> set (map snd presetButtons)
      | DismissClick \<Rightarrow> alertModal (render s)
      | IntervalFires i \<Rightarrow> i \<in> set (liveIntervals s))"

inductive ui_step :: "widget \<Rightarrow> widget \<Rightarrow> bool" where
  handled: "event_enabled s e \<Longrightarrow> ui_step s (dispatch e s)"

inductive reachable :: "widget \<Rightarrow> bool" where
  mounted: "reachable mount"
| step: "reachable s \<Longrightarrow> ui_step s s' \<Longrightarrow> reachable s'"

text \<open>The status of the specification, derived from the two booleans.\<close>

datatype status = Idle | Running | Completed

definition status_of :: "widget \<Rightarrow> status" where
  "status_of s = (if isRunning s then Running else if isCompleted s then Completed else Idle)"

definition widget_inv :: "widget \<Rightarrow> bool" where
  "widget_inv s \<longleftrightarrow>
     \<not> (isRunning s \<and> isCompleted s) \<and>
     (isCompleted s \<longrightarrow> is_zero_time (time s)) \<and>
     beepReady s \<and>
     (isRunning s \<longleftrightarrow> intervalRef s \<noteq> None) \<and>
     liveIntervals s = (case intervalRef s of None \<Rightarrow> [] | Some i \<Rightarrow> [i])"

text \<open>The part of the invariant that concerns the status alone.\<close>

definition status_ok :: "widget \<Rightarrow> bool" where
  "status_ok s \<longleftrightarrow> \<not> (isRunning s \<and> isCompleted s) \<and> (isCompleted s \<longrightarrow> is_zero_time (time s))"

text \<open>The audio part of the state: once mounted there is an audio context, it is
  well-formed, and its log holds one started oscillator per tone counted.\<close>

definition audio_inv :: "widget \<Rightarrow> bool" where
  "audio_inv s \<longleftrightarrow>
     (case audioCtx s of None \<Rightarrow> False | Some c \<Rightarrow> audio_wf c \<and> tones (calls c) = beeps s)"

text \<open>The transitions the specification allows between statuses (section 4.2):
  Start from Idle, Pause and Reset back to Idle, the tick that stays Running or
  completes, and leaving Completed.\<close>

inductive spec_step :: "status \<Rightarrow> status \<Rightarrow> bool" where
  stutter: "spec_step q q"
| start: "spec_step Idle Running"
| pause_or_reset: "spec_step Running Idle"
| complete: "spec_step Running Completed"
| leave_completed: "spec_step Completed Idle"

text \<open>The browser firing the armed interval \<open>k\<close> times with no user event in
  between (one firing per second).\<close>

fun run_interval :: "nat \<Rightarrow> widget \<Rightarrow> widget" where
  "run_interval 0 s = s"
| "run_interval (Suc k) s =
     (case intervalRef s of None \<Rightarrow> s | Some i \<Rightarrow> run_interval k (dispatch (IntervalFires i) s))"

text \<open>A sequence of events handled one after the other, and the test that each
  is enabled when it arrives: a trace of the page.\<close>

definition run_events :: "event list \<Rightarrow> widget \<Rightarrow> widget" where
  "run_events es s = fold dispatch es s"

fun enabled_run :: "widget \<Rightarrow> event list \<Rightarrow> bool" where
  "enabled_run s [] = True"
| "enabled_run s (e # es) = (event_enabled s e \<and> enabled_run (dispatch e s) es)"

text \<open>Three states of the run that types \<^verbatim>\<open>0:01\<close>, presses Start and lets the
  interval fire twice; the witnesses below use them.\<close>

abbreviation demo_running :: widget where
  "demo_running \<equiv>
     \<lparr>time = \<lparr>hours = 0, minutes = 0, seconds = 1\<rparr>, isRunning = True, isCompleted = False,
      showAlert = False, inputValue = ''0:01'', intervalRef = Some 1, beepReady = True,
      liveIntervals = [1], nextTimerId = 2, beeps = 0, audioCtx = Some new_audio_context\<rparr>"

abbreviation demo_at_zero :: widget where
  "demo_at_zero \<equiv> demo_running\<lparr>time := \<lparr>hours = 0, minutes = 0, seconds = 0\<rparr>\<rparr>"

abbreviation demo_completed :: widget where
  "demo_completed \<equiv>
     \<lparr>time = \<lparr>hours = 0, minutes = 0, seconds = 0\<rparr>, isRunning = False, isCompleted = True,
      showAlert = True, inputValue = ''0:01'', intervalRef = None, beepReady = True,
      liveIntervals = [], nextTimerId = 2, beeps = 1,
      audioCtx = Some (createBeepSound new_audio_context)\<rparr>"

inductive_cases ui_stepE: "ui_step s s'"

subsection \<open>Frame lemmas\<close>

lemma handle_frame [widget_simps]:
  "intervalRef (handle e s) = intervalRef s"
  "liveIntervals (handle e s) = liveIntervals s"
  "nextTimerId (handle e s) = nextTimerId s"
  "beepReady (handle e s) = beepReady s"
  by (cases e; simp add: handleInputChange_def handleStart_def handlePause_def handleReset_def
      handlePreset_def handleDismiss_def on_interval_def Let_def split: tick_outcome.split)+

lemma timer_cleanup_fields [widget_simps]:
  "time (timer_cleanup s) = time s" "isRunning (timer_cleanup s) = isRunning s"
  "isCompleted (timer_cleanup s) = isCompleted s" "showAlert (timer_cleanup s) = showAlert s"
  "inputValue (timer_cleanup s) = inputValue s" "beepReady (timer_cleanup s) = beepReady s"
  "beeps (timer_cleanup s) = beeps s" "intervalRef (timer_cleanup s) = intervalRef s"
  "audioCtx (timer_cleanup s) = audioCtx s"
  by (simp_all add: timer_cleanup_def clearInterval_def split: option.split)

lemma timer_effect_fields [widget_simps]:
  "time (timer_effect s) = time s" "isRunning (timer_effect s) = isRunning s"
  "isCompleted (timer_effect s) = isCompleted s" "showAlert (timer_effect s) = showAlert s"
  "inputValue (timer_effect s) = inputValue s" "beepReady (timer_effect s) = beepReady s"
  "beeps (timer_effect s) = beeps s" "audioCtx (timer_effect s) = audioCtx s"
  by (simp_all add: timer_effect_def setInterval_def clearInterval_def Let_def split: option.split)

lemma commit_fields [widget_simps]:
  "time (commit p s) = time s" "isRunning (commit p s) = isRunning s"
  "isCompleted (commit p s) = isCompleted s" "showAlert (commit p s) = showAlert s"
  "inputValue (commit p s) = inputValue s" "beepReady (commit p s) = beepReady s"
  "beeps (commit p s) = beeps s" "audioCtx (commit p s) = audioCtx s"
  by (simp_all add: commit_def widget_simps)

lemma commit_same:
  "isRunning p = isRunning s \<Longrightarrow> isCompleted p = isCompleted s \<Longrightarrow> commit p s = s"
  by (simp add: commit_def)


subsection \<open>The invariant\<close>

lemma handle_status_ok:
  assumes "status_ok s"
  shows "status_ok (handle e s)"
proof (cases e)
  case (IntervalFires i)
  show ?thesis
  proof (cases "is_zero_time (time s)")
    case True
    then show ?thesis using IntervalFires
      by (simp add: status_ok_def on_interval_def interval_tick_def)
  next
    case False
    then show ?thesis using IntervalFires assms
      by (simp add: status_ok_def on_interval_def interval_tick_def)
  qed
qed (use assms in \<open>auto simp: status_ok_def handleInputChange_def handleStart_def handlePause_def
      handleReset_def handlePreset_def handleDismiss_def Let_def\<close>)

lemma commit_inv:
  assumes inv: "widget_inv p"
    and frame: "intervalRef s = intervalRef p" "liveIntervals s = liveIntervals p"
      "beepReady s = beepReady p"
    and ok: "status_ok s"
  shows "widget_inv (commit p s)"
proof (cases "isRunning p = isRunning s \<and> isCompleted p = isCompleted s")
  case True
  then show ?thesis using inv frame ok
    by (simp add: commit_same widget_inv_def status_ok_def)
next
  case False
  let ?c = "timer_cleanup s"
  have c: "liveIntervals ?c = []" "intervalRef ?c = intervalRef s"
    using inv frame by (auto simp: timer_cleanup_def clearInterval_def widget_inv_def
        split: option.splits)
  have "widget_inv (timer_effect ?c)"
    using c ok inv frame
    by (auto simp: timer_effect_def setInterval_def clearInterval_def widget_inv_def
        status_ok_def widget_simps split: option.splits)
  moreover have "commit p s = timer_effect ?c"
    unfolding commit_def using False by (rule if_not_P)
  ultimately show ?thesis by simp
qed

lemma widget_inv_status_ok: "widget_inv s \<Longrightarrow> status_ok s"
  unfolding widget_inv_def status_ok_def by blast

lemma dispatch_inv: "widget_inv s \<Longrightarrow> widget_inv (dispatch e s)"
  unfolding dispatch_def
proof (rule commit_inv)
  assume "widget_inv s"
  then show "status_ok (handle e s)" by (intro handle_status_ok widget_inv_status_ok)
qed (simp_all add: widget_simps)

lemma mount_inv: "widget_inv mount"
  by (simp add: mount_def timer_effect_def audio_effect_def initial_render_def widget_inv_def
      is_zero_time_def)

lemma reachable_inv: "reachable s \<Longrightarrow> widget_inv s"
proof (induction rule: reachable.induct)
  case mounted
  then show ?case by (rule mount_inv)
next
  case (step s s')
  then show ?case by (auto elim: ui_stepE intro: dispatch_inv)
qed



lemma mount_eq:
  "mount = \<lparr>time = \<lparr>hours = 0, minutes = 5, seconds = 0\<rparr>, isRunning = False, isCompleted = False,
      showAlert = False, inputValue = ''05:00'', intervalRef = None, beepReady = True,
      liveIntervals = [], nextTimerId = 1, beeps = 0, audioCtx = Some new_audio_context\<rparr>"
  by (simp add: mount_def initial_render_def audio_effect_def timer_effect_def)

subsection \<open>Steps, handlers and reachable states\<close>

inductive_simps spec_step_simps: "spec_step q q'"

lemma status_of_dispatch: "status_of (dispatch e s) = status_of (handle e s)"
  by (simp add: dispatch_def status_of_def widget_simps)

lemma handle_not_interval:
  "\<forall>i. e \<noteq> IntervalFires i \<Longrightarrow>
   beeps (handle e s) = beeps s \<and> (isCompleted (handle e s) \<longrightarrow> isCompleted s)"
  by (cases e) (simp_all add: handleInputChange_def handleStart_def handlePause_def handleReset_def
      handlePreset_def handleDismiss_def Let_def)

lemma enabled_interval_running:
  "widget_inv s \<Longrightarrow> event_enabled s (IntervalFires i) \<Longrightarrow> isRunning s \<and> \<not> isCompleted s"
  by (auto simp: event_enabled_def widget_inv_def split: option.splits)

lemma on_interval_cases:
  "on_interval s =
     (if is_zero_time (time s)
      then s\<lparr>isRunning := False, isCompleted := True, showAlert := True,
              beeps := (if beepReady s then Suc (beeps s) else beeps s),
              audioCtx := (if beepReady s then map_option createBeepSound (audioCtx s)
                           else audioCtx s)\<rparr>
      else s\<lparr>time := countdown_step (time s)\<rparr>)"
  by (simp add: on_interval_def interval_tick_def)

lemma handle_audio_fixed:
  "\<forall>i. e \<noteq> IntervalFires i \<Longrightarrow> audioCtx (handle e s) = audioCtx s \<and> beeps (handle e s) = beeps s"
  by (cases e) (simp_all add: handleInputChange_def handleStart_def handlePause_def handleReset_def
      handlePreset_def handleDismiss_def Let_def)

lemma audio_inv_dispatch:
  assumes "audio_inv s"
  shows "audio_inv (dispatch e s)"
proof -
  have "audio_inv (handle e s)"
  proof (cases "\<exists>i. e = IntervalFires i")
    case True
    then show ?thesis using assms
      by (auto simp: audio_inv_def on_interval_cases audio_wf_createBeepSound tones_createBeepSound
          split: option.splits)
  next
    case False
    then show ?thesis using assms handle_audio_fixed[of e s] by (auto simp: audio_inv_def split: option.splits)
  qed
  then show ?thesis by (auto simp: dispatch_def audio_inv_def widget_simps split: option.splits)
qed

lemma reachable_audio_inv: "reachable s \<Longrightarrow> audio_inv s"
proof (induction rule: reachable.induct)
  case mounted
  then show ?case using audio_wf_new by (simp add: mount_eq audio_inv_def new_audio_context_def)
next
  case (step s s')
  then show ?case by (auto elim: ui_stepE intro: audio_inv_dispatch)
qed

text \<open>C5: The Alert Notifier fires exactly once per completion: in every step of a
  reachable state the count of played tones grows by one, and the audio
  context receives exactly one \<open>createBeepSound\<close>, exactly when the step turns
  \<^verbatim>\<open>isCompleted\<close> on; otherwise both stay the same.\<close>

theorem ui_step_beeps:
  assumes "reachable s" "ui_step s s'"
  shows "beeps s' = (if \<not> isCompleted s \<and> isCompleted s' then Suc (beeps s) else beeps s) \<and>
         audioCtx s' = (if \<not> isCompleted s \<and> isCompleted s' then map_option createBeepSound (audioCtx s)
                        else audioCtx s)"
proof -
  have inv: "widget_inv s" using assms(1) by (rule reachable_inv)
  from assms(2) obtain e where en: "event_enabled s e" and s': "s' = dispatch e s"
    by (auto elim: ui_stepE)
  show ?thesis
  proof (cases "\<exists>i. e = IntervalFires i")
    case True
    then obtain i where e: "e = IntervalFires i" by blast
    have "isRunning s \<and> \<not> isCompleted s" using inv en e by (simp add: enabled_interval_running)
    then show ?thesis using inv s' e
      by (simp add: dispatch_def on_interval_cases widget_simps widget_inv_def)
  next
    case False
    then show ?thesis using handle_not_interval[of e s] handle_audio_fixed[of e s] s'
      by (auto simp: dispatch_def widget_simps)
  qed
qed


lemma handle_status:
  assumes "status_ok s" "event_enabled s e"
  shows "status_of (handle e s) =
     (case e of
        InputChange v \<Rightarrow> Idle
      | StartClick \<Rightarrow> Running
      | PauseClick \<Rightarrow> Idle
      | ResetClick \<Rightarrow> Idle
      | PresetClick m \<Rightarrow> Idle
      | DismissClick \<Rightarrow> status_of s
      | IntervalFires i \<Rightarrow> (if is_zero_time (time s) then Completed else status_of s))"
  using assms
  by (cases e) (auto simp: status_of_def status_ok_def event_enabled_def render_def
      handleInputChange_def handleStart_def handlePause_def handleReset_def handlePreset_def
      handleDismiss_def on_interval_cases Let_def)

lemma spec_step_to_Idle: "spec_step q Idle"
  by (cases q) (auto intro: spec_step.intros)

text \<open>C3: Refinement of the status machine: every step of a reachable state maps
  the derived status (Idle, Running, Completed) to a transition the
  specification allows; in particular Completed is never left for Running and
  Idle never jumps to Completed.\<close>

theorem ui_step_simulates:
  assumes "reachable s" "ui_step s s'"
  shows "spec_step (status_of s) (status_of s')"
proof -
  have inv: "widget_inv s" using assms(1) by (rule reachable_inv)
  then have ok: "status_ok s" by (rule widget_inv_status_ok)
  from assms(2) obtain e where en: "event_enabled s e" and s': "s' = dispatch e s"
    by (auto elim: ui_stepE)
  have st: "status_of s' = status_of (handle e s)" using s' by (simp add: status_of_dispatch)
  show ?thesis
  proof (cases e)
    case StartClick
    then have "\<not> isRunning s" "\<not> is_zero_time (time s)"
      using en by (simp_all add: event_enabled_def render_def)
    then have "status_of s = Idle" using ok by (auto simp: status_of_def status_ok_def)
    then show ?thesis using st handle_status[OF ok en] StartClick by (simp add: spec_step_simps)
  next
    case (IntervalFires i)
    then have "isRunning s" using inv en enabled_interval_running by blast
    then show ?thesis using st handle_status[OF ok en] IntervalFires
      by (simp add: spec_step_simps status_of_def)
  qed (use st handle_status[OF ok en] spec_step_to_Idle spec_step.stutter in simp_all)
qed

text \<open>C13: The only way into Completed: a step that turns completion on starts
  from Running at the zero time, stops running, keeps the time, shows the
  alert and leaves no interval armed.\<close>

lemma ui_step_completion:
  assumes "reachable s" "ui_step s s'" "\<not> isCompleted s" "isCompleted s'"
  shows "isRunning s \<and> is_zero_time (time s) \<and> \<not> isRunning s' \<and> time s' = time s \<and>
         showAlert s' \<and> liveIntervals s' = []"
proof -
  have inv: "widget_inv s" using assms(1) by (rule reachable_inv)
  from assms(2) obtain e where en: "event_enabled s e" and s': "s' = dispatch e s"
    by (auto elim: ui_stepE)
  have inv': "widget_inv s'" using inv s' by (simp add: dispatch_inv)
  obtain i where e: "e = IntervalFires i"
    using handle_not_interval[of e s] assms(3,4) s' by (auto simp: dispatch_def widget_simps)
  have run: "isRunning s" using inv en e enabled_interval_running by blast
  have zero: "is_zero_time (time s)"
    using assms(3,4) s' e by (auto simp: dispatch_def widget_simps on_interval_cases split: if_splits)
  have "\<not> isRunning s' \<and> time s' = time s \<and> showAlert s'"
    using s' e zero by (simp add: dispatch_def widget_simps on_interval_cases)
  moreover have "liveIntervals s' = []"
    using inv' calculation by (auto simp: widget_inv_def split: option.splits)
  ultimately show ?thesis using run zero by simp
qed

text \<open>C34: The colour scheme of the time panel shows the status of the
  specification in every reachable state: red exactly when Completed, green
  exactly when Running, grey exactly when Idle.\<close>

lemma reachable_panel:
  "reachable s \<Longrightarrow> panel (render s) =
     (case status_of s of Idle \<Rightarrow> IdleStyle | Running \<Rightarrow> RunningStyle | Completed \<Rightarrow> CompletedStyle)"
  using reachable_inv[of s] by (auto simp: render_def status_of_def widget_inv_def)

text \<open>C21: Start guard: Start on the zero time changes nothing, whatever the state.\<close>

lemma dispatch_start_zero: "is_zero_time (time s) \<Longrightarrow> dispatch StartClick s = s"
  by (simp add: dispatch_def handleStart_def commit_same)

text \<open>C22: Pause is a no-op when the timer is not running.\<close>

lemma dispatch_pause_idle: "\<not> isRunning s \<Longrightarrow> dispatch PauseClick s = s"
  by (simp add: dispatch_def handlePause_def commit_same)

text \<open>C23: A preset selected while running is ignored: the state is unchanged.\<close>

lemma dispatch_preset_running: "isRunning s \<Longrightarrow> dispatch (PresetClick m) s = s"
  by (simp add: dispatch_def handlePreset_def commit_same)

text \<open>C24: Editing the text while running does not touch the time or the status,
  but the handler still stores the new text (line 116), which a later Reset
  parses; only the \<^verbatim>\<open>disabled\<close> attribute of the field keeps this from
  happening in the page.\<close>

lemma dispatch_input_running:
  "isRunning s \<Longrightarrow> dispatch (InputChange v) s = s\<lparr>inputValue := v\<rparr>"
  by (simp add: dispatch_def handleInputChange_def commit_same)

text \<open>C19: Start from a consistent idle state with a non-zero time sets Running and
  arms exactly one new interval, with the next timer identifier.\<close>

lemma dispatch_start_arms:
  assumes "widget_inv s" "\<not> isRunning s" "\<not> is_zero_time (time s)"
  shows "dispatch StartClick s =
           s\<lparr>isRunning := True, isCompleted := False, intervalRef := Some (nextTimerId s),
             liveIntervals := [nextTimerId s], nextTimerId := Suc (nextTimerId s)\<rparr>"
  using assms
  by (simp add: dispatch_def handleStart_def commit_def timer_cleanup_def timer_effect_def
      setInterval_def widget_inv_def)

text \<open>C16: Reset from any consistent state: not running, not completed, alert
  hidden, the time re-read from the stored text, and no interval armed.\<close>

lemma dispatch_reset:
  assumes "widget_inv s"
  shows "dispatch ResetClick s =
           s\<lparr>isRunning := False, isCompleted := False, showAlert := False,
             time := parseTimeInput (inputValue s), intervalRef := None, liveIntervals := []\<rparr>"
  using assms
  by (auto simp: dispatch_def handleReset_def commit_def timer_cleanup_def timer_effect_def
      clearInterval_def widget_inv_def split: option.splits)

text \<open>C35: Unmounting a reachable widget leaves no interval armed.\<close>

lemma teardown_disarms: "reachable s \<Longrightarrow> liveIntervals (teardown s) = []"
  using reachable_inv[of s]
  by (auto simp: teardown_def timer_cleanup_def clearInterval_def widget_inv_def
      split: option.splits)

text \<open>C6: Running and Completed exclude each other in every reachable state.\<close>

lemma reachable_mutual_exclusion: "reachable s \<Longrightarrow> \<not> (isRunning s \<and> isCompleted s)"
  using reachable_inv[of s] unfolding widget_inv_def by blast

text \<open>C7: In every reachable state at most one interval is armed, and one is
  armed exactly while the timer runs.\<close>

lemma reachable_interval_armed:
  "reachable s \<Longrightarrow> length (liveIntervals s) \<le> 1 \<and> (liveIntervals s \<noteq> [] \<longleftrightarrow> isRunning s)"
  using reachable_inv[of s] by (auto simp: widget_inv_def split: option.splits)

text \<open>C33: A completed reachable state shows the zero time.\<close>

lemma reachable_completed_zero: "reachable s \<Longrightarrow> isCompleted s \<Longrightarrow> is_zero_time (time s)"
  using reachable_inv[of s] by (simp add: widget_inv_def)

text \<open>C8: The Alert Notifier's audio context in every reachable state: there is
  one, every node its log names was created by it, and it has started exactly as
  many oscillators as tones were counted.\<close>

theorem reachable_audio:
  "reachable s \<Longrightarrow> \<exists>c. audioCtx s = Some c \<and> audio_wf c \<and> tones (calls c) = beeps s"
  using reachable_audio_inv[of s] by (auto simp: audio_inv_def split: option.splits)

text \<open>C20: Pausing loses no time: Pause and then Start on a running reachable
  state with a non-zero time give back the same state, the same time and status
  included, except that the old interval is disarmed and exactly one fresh
  interval, with the next identifier, is armed.\<close>

theorem pause_then_start:
  assumes "reachable s" "isRunning s" "\<not> is_zero_time (time s)"
  shows "dispatch StartClick (dispatch PauseClick s) =
           s\<lparr>intervalRef := Some (nextTimerId s), liveIntervals := [nextTimerId s],
             nextTimerId := Suc (nextTimerId s)\<rparr>"
proof -
  have inv: "widget_inv s" using assms(1) by (rule reachable_inv)
  then obtain i where i: "intervalRef s = Some i" "liveIntervals s = [i]" "\<not> isCompleted s"
    using assms(2) by (auto simp: widget_inv_def split: option.splits)
  then show ?thesis using assms(2,3)
    by (simp add: dispatch_def handlePause_def handleStart_def commit_def timer_cleanup_def
        timer_effect_def clearInterval_def setInterval_def)
qed

lemma reachable_dispatch: "reachable s \<Longrightarrow> event_enabled s e \<Longrightarrow> reachable (dispatch e s)"
  by (blast intro: reachable.step ui_step.handled)



lemma reachable_run_events:
  "reachable s \<Longrightarrow> enabled_run s es \<Longrightarrow> reachable (run_events es s)"
proof (induction es arbitrary: s)
  case Nil
  then show ?case by (simp add: run_events_def)
next
  case (Cons e es)
  then have "reachable (dispatch e s)" by (simp add: reachable_dispatch)
  with Cons show ?case by (simp add: run_events_def)
qed


subsection \<open>The example run and the witnesses\<close>

lemma demo_reachable:
  "reachable demo_running" "reachable demo_at_zero" "reachable demo_completed"
proof -
  have r: "reachable (run_events es mount)" if "enabled_run mount es" for es
    using reachable.mounted that by (rule reachable_run_events)
  have "enabled_run mount [InputChange ''0:01'', StartClick, IntervalFires 1, IntervalFires 1]"
    by code_simp
  then have e: "enabled_run mount [InputChange ''0:01'', StartClick]"
      "enabled_run mount [InputChange ''0:01'', StartClick, IntervalFires 1]"
      "enabled_run mount [InputChange ''0:01'', StartClick, IntervalFires 1, IntervalFires 1]"
    by simp_all
  have "run_events [InputChange ''0:01'', StartClick] mount = demo_running"
    by code_simp
  then show "reachable demo_running" using r[OF e(1)] by simp
  have "run_events [InputChange ''0:01'', StartClick, IntervalFires 1] mount = demo_at_zero"
    by code_simp
  then show "reachable demo_at_zero" using r[OF e(2)] by simp
  have "run_events [InputChange ''0:01'', StartClick, IntervalFires 1, IntervalFires 1] mount
      = demo_completed"
    by code_simp
  then show "reachable demo_completed" using r[OF e(3)] by simp
qed

lemma demo_completing_step: "ui_step demo_at_zero demo_completed"
proof -
  have "event_enabled demo_at_zero (IntervalFires 1)" by code_simp
  moreover have "dispatch (IntervalFires 1) demo_at_zero = demo_completed" by code_simp
  ultimately show ?thesis by (metis ui_step.handled)
qed

theorem ui_step_beeps_witness:
  "reachable demo_at_zero \<and> ui_step demo_at_zero demo_completed \<and>
   beeps demo_completed = Suc (beeps demo_at_zero) \<and>
   audioCtx demo_completed = map_option createBeepSound (audioCtx demo_at_zero)"
  using ui_step_beeps[OF demo_reachable(2) demo_completing_step] demo_reachable(2)
    demo_completing_step by simp

theorem ui_step_simulates_witness:
  "reachable demo_at_zero \<and> ui_step demo_at_zero demo_completed \<and>
   spec_step (status_of demo_at_zero) (status_of demo_completed)"
  using ui_step_simulates[OF demo_reachable(2) demo_completing_step] demo_reachable(2)
    demo_completing_step by simp

lemma ui_step_completion_witness:
  "reachable demo_at_zero \<and> ui_step demo_at_zero demo_completed \<and>
   \<not> isCompleted demo_at_zero \<and> isCompleted demo_completed \<and>
   isRunning demo_at_zero \<and> liveIntervals demo_completed = []"
  using ui_step_completion[OF demo_reachable(2) demo_completing_step] demo_reachable(2)
    demo_completing_step by simp

lemma reachable_panel_witness:
  "reachable demo_running \<and> panel (render demo_running) = RunningStyle"
  using reachable_panel[OF demo_reachable(1)] demo_reachable(1) by (simp add: status_of_def)

lemma dispatch_start_zero_witness:
  "is_zero_time (time demo_completed) \<and> dispatch StartClick demo_completed = demo_completed"
proof -
  have h: "is_zero_time (time demo_completed)" by (simp add: is_zero_time_def)
  show ?thesis using dispatch_start_zero[OF h] h by simp
qed

lemma dispatch_pause_idle_witness:
  "\<not> isRunning demo_completed \<and> dispatch PauseClick demo_completed = demo_completed"
  using dispatch_pause_idle[of demo_completed] by simp

lemma dispatch_preset_running_witness:
  "isRunning demo_running \<and> dispatch (PresetClick 5) demo_running = demo_running"
  using dispatch_preset_running[of demo_running 5] by simp

lemma dispatch_input_running_witness:
  "isRunning demo_running \<and>
   dispatch (InputChange ''9'') demo_running = demo_running\<lparr>inputValue := ''9''\<rparr>"
  using dispatch_input_running[of demo_running "''9''"] by simp

lemma dispatch_start_arms_witness:
  "widget_inv mount \<and> \<not> isRunning mount \<and> \<not> is_zero_time (time mount) \<and>
   dispatch StartClick mount =
     mount\<lparr>isRunning := True, isCompleted := False, intervalRef := Some 1,
       liveIntervals := [1], nextTimerId := 2\<rparr>"
proof -
  have h: "widget_inv mount" "\<not> isRunning mount" "\<not> is_zero_time (time mount)"
    using mount_inv by (simp_all add: mount_eq is_zero_time_def)
  show ?thesis using dispatch_start_arms[OF h] h by (simp add: mount_eq)
qed

lemma dispatch_reset_witness:
  "widget_inv demo_running \<and>
   dispatch ResetClick demo_running =
     demo_running\<lparr>isRunning := False, isCompleted := False, showAlert := False,
       time := parseTimeInput ''0:01'', intervalRef := None, liveIntervals := []\<rparr>"
proof -
  have h: "widget_inv demo_running" using demo_reachable(1) by (rule reachable_inv)
  show ?thesis using dispatch_reset[OF h] h by simp
qed

lemma teardown_disarms_witness:
  "reachable demo_running \<and> liveIntervals (teardown demo_running) = []"
  using teardown_disarms[OF demo_reachable(1)] demo_reachable(1) by simp

lemma reachable_mutual_exclusion_witness:
  "reachable demo_completed \<and> \<not> (isRunning demo_completed \<and> isCompleted demo_completed)"
  using reachable_mutual_exclusion[OF demo_reachable(3)] demo_reachable(3) by simp

lemma reachable_interval_armed_witness:
  "reachable demo_running \<and> length (liveIntervals demo_running) \<le> 1 \<and>
   (liveIntervals demo_running \<noteq> [] \<longleftrightarrow> isRunning demo_running)"
  using reachable_interval_armed[OF demo_reachable(1)] demo_reachable(1) by simp

lemma reachable_completed_zero_witness:
  "reachable demo_completed \<and> isCompleted demo_completed \<and> is_zero_time (time demo_completed)"
  using reachable_completed_zero[OF demo_reachable(3)] demo_reachable(3) by simp

theorem reachable_audio_witness:
  "reachable demo_completed \<and> audioCtx demo_completed = Some (createBeepSound new_audio_context) \<and>
   audio_wf (createBeepSound new_audio_context) \<and> tones (calls (createBeepSound new_audio_context)) = 1"
  using reachable_audio[OF demo_reachable(3)] demo_reachable(3) by simp

theorem pause_then_start_witness:
  "reachable demo_running \<and> isRunning demo_running \<and> \<not> is_zero_time (time demo_running) \<and>
   dispatch StartClick (dispatch PauseClick demo_running) =
     demo_running\<lparr>intervalRef := Some 2, liveIntervals := [2], nextTimerId := 3\<rparr>"
proof -
  have h: "reachable demo_running" "isRunning demo_running" "\<not> is_zero_time (time demo_running)"
    using demo_reachable(1) by (simp_all add: is_zero_time_def)
  show ?thesis using pause_then_start[OF h] h by simp
qed

end
