(* ===== verification/AbstractTimer.thy ===== *)
theory AbstractTimer
  imports Session
begin

text \<open>
  The Countdown Engine as the specification describes it (sections 3, 4.2 and
  4.3, and the \<^verbatim>\<open>tick(current) -> next\<close> of its design notes): a single
  status, the remaining duration as a number of seconds, whether the notice is
  shown, how often the Notifier fired, and the input text. \<open>engine_op\<close> gives
  each user action and each tick its specified effect. Where the specification
  and the code part, the abstract operation follows the code: input and presets
  are honoured in Completed too (the code's guard is \<^emph>\<open>not Running\<close>, the
  specification says Idle), and Reset hides the notice (line 135), while
  section 4.3 says the notice stays until it is dismissed.
  \<open>abs_widget\<close> reads a widget as such an engine; the refinement theorem says
  that every enabled event of a reachable widget with non-negative time fields
  is, read through \<open>abs_widget\<close>, the specified operation.
\<close>

record engine =
  eng_status :: status
  eng_remaining :: int
  eng_alert :: bool
  eng_fired :: nat
  eng_text :: js_string

definition engine_op :: "event \<Rightarrow> engine \<Rightarrow> engine" where
  "engine_op e a =
     (case e of
        InputChange v \<Rightarrow>
          if eng_status a = Running then a
          else a\<lparr>eng_text := v, eng_remaining := total_seconds (parseTimeInput v), eng_status := Idle\<rparr>
      | StartClick \<Rightarrow>
          if eng_remaining a \<noteq> 0 \<and> eng_status a \<noteq> Running then a\<lparr>eng_status := Running\<rparr> else a
      | PauseClick \<Rightarrow> if eng_status a = Running then a\<lparr>eng_status := Idle\<rparr> else a
      | ResetClick \<Rightarrow>
          a\<lparr>eng_status := Idle, eng_alert := False,
            eng_remaining := total_seconds (parseTimeInput (eng_text a))\<rparr>
      | PresetClick m \<Rightarrow>
          if eng_status a = Running then a
          else a\<lparr>eng_status := Idle, eng_remaining := 60 * m,
                  eng_text := formatTime \<lparr>hours = 0, minutes = m, seconds = 0\<rparr>\<rparr>
      | DismissClick \<Rightarrow> a\<lparr>eng_alert := False\<rparr>
      | IntervalFires i \<Rightarrow>
          if eng_status a \<noteq> Running then a
          else if eng_remaining a = 0
          then a\<lparr>eng_status := Completed, eng_alert := True, eng_fired := Suc (eng_fired a)\<rparr>
          else a\<lparr>eng_remaining := eng_remaining a - 1\<rparr>)"

definition abs_widget :: "widget \<Rightarrow> engine" where
  "abs_widget s =
     \<lparr>eng_status = status_of s, eng_remaining = total_seconds (time s), eng_alert = showAlert s,
      eng_fired = beeps s, eng_text = inputValue s\<rparr>"

text \<open>The engine when the widget appears: Idle, the default duration of five
  minutes (section 3), no notice, no tone, the default text.\<close>

definition engine_start :: engine where
  "engine_start =
     \<lparr>eng_status = Idle, eng_remaining = 300, eng_alert = False, eng_fired = 0,
      eng_text = ''05:00''\<rparr>"

text \<open>Sessions in which nobody types a minus sign: the times stay non-negative.\<close>

definition sign_free_event :: "event \<Rightarrow> bool" where
  "sign_free_event e = (case e of InputChange v \<Rightarrow> CHR ''-'' \<notin> set v | _ \<Rightarrow> True)"

definition sign_free :: "widget \<Rightarrow> bool" where
  "sign_free s \<longleftrightarrow> CHR ''-'' \<notin> set (inputValue s) \<and> nonneg_time (time s)"

subsection \<open>One proof obligation per event\<close>

lemma abs_commit: "abs_widget (commit p s) = abs_widget s"
  by (simp add: abs_widget_def status_of_def widget_simps)

lemma abs_dispatch: "abs_widget (dispatch e s) = abs_widget (handle e s)"
  by (simp add: dispatch_def abs_commit)

lemma refines_input:
  "\<not> isRunning s \<Longrightarrow> abs_widget (handle (InputChange v) s) = engine_op (InputChange v) (abs_widget s)"
  by (simp add: engine_op_def abs_widget_def status_of_def handleInputChange_def Let_def)

lemma refines_start:
  assumes "widget_inv s" "nonneg_time (time s)"
  shows "abs_widget (handle StartClick s) = engine_op StartClick (abs_widget s)"
  using assms nonneg_zero_iff_total[OF assms(2)]
  by (auto simp: engine_op_def abs_widget_def status_of_def handleStart_def widget_inv_def)

lemma refines_pause:
  "widget_inv s \<Longrightarrow> abs_widget (handle PauseClick s) = engine_op PauseClick (abs_widget s)"
  by (auto simp: engine_op_def abs_widget_def status_of_def handlePause_def widget_inv_def)

lemma refines_reset:
  "abs_widget (handle ResetClick s) = engine_op ResetClick (abs_widget s)"
  by (simp add: engine_op_def abs_widget_def status_of_def handleReset_def)

lemma refines_preset:
  "abs_widget (handle (PresetClick m) s) = engine_op (PresetClick m) (abs_widget s)"
  by (simp add: engine_op_def abs_widget_def status_of_def handlePreset_def total_seconds_def Let_def)

lemma refines_dismiss:
  "abs_widget (handle DismissClick s) = engine_op DismissClick (abs_widget s)"
  by (simp add: engine_op_def abs_widget_def status_of_def handleDismiss_def)

lemma refines_tick:
  assumes "widget_inv s" "isRunning s" "nonneg_time (time s)"
  shows "abs_widget (handle (IntervalFires i) s) = engine_op (IntervalFires i) (abs_widget s)"
proof (cases "is_zero_time (time s)")
  case True
  then show ?thesis using assms nonneg_zero_iff_total[OF assms(3)]
    by (simp add: engine_op_def abs_widget_def status_of_def on_interval_cases widget_inv_def)
next
  case False
  then show ?thesis using assms nonneg_zero_iff_total[OF assms(3)] countdown_step_refines[OF assms(3) False]
    by (simp add: engine_op_def abs_widget_def status_of_def on_interval_cases)
qed

subsection \<open>The refinement\<close>

text \<open>The per-event obligations together: every event that the page or the armed
  timer offers in a reachable state whose time fields are non-negative is,
  read as an engine, the specified engine operation.\<close>

lemma dispatch_refines_engine:
  assumes "reachable s" "event_enabled s e" "nonneg_time (time s)"
  shows "abs_widget (dispatch e s) = engine_op e (abs_widget s)"
proof -
  have inv: "widget_inv s" using assms(1) by (rule reachable_inv)
  show ?thesis
  proof (cases e)
    case (InputChange v)
    then show ?thesis using assms(2) refines_input[of s v]
      by (simp add: abs_dispatch event_enabled_def render_def)
  next
    case (IntervalFires i)
    then have "isRunning s" using enabled_interval_running[OF inv] assms(2) by blast
    then show ?thesis using IntervalFires refines_tick[OF inv _ assms(3)] by (simp add: abs_dispatch)
  qed (simp_all add: abs_dispatch refines_start[OF inv assms(3)] refines_pause[OF inv]
      refines_reset refines_preset refines_dismiss del: handle.simps)
qed

subsection \<open>Sessions without a minus sign\<close>

lemma sign_free_dispatch:
  assumes "sign_free s" "event_enabled s e" "sign_free_event e"
  shows "sign_free (dispatch e s)"
proof -
  have parse: "nonneg_time (parseTimeInput v)" if "CHR ''-'' \<notin> set v" for v
  proof -
    have "CHR ''-'' \<notin> set p" if "p \<in> set (js_split CHR '':'' v)" for p
      using \<open>CHR ''-'' \<notin> set v\<close> js_split_pieces_subset that by blast
    then show ?thesis by (blast intro: parseTimeInput_parts_nonneg parse_part_nonneg)
  qed
  have "sign_free (handle e s)"
  proof (cases e)
    case (PresetClick m)
    then have "0 \<le> m" using assms(2) by (auto simp: event_enabled_def presetButtons_def)
    then show ?thesis using PresetClick assms(1) pad2_nonneg_no_minus[of m] pad2_nonneg_no_minus[of 0]
      by (simp add: sign_free_def handlePreset_def formatTime_def nonneg_time_def Let_def)
  next
    case (IntervalFires i)
    then show ?thesis using assms(1) countdown_step_refines[of "time s"]
      by (simp add: sign_free_def on_interval_cases)
  qed (use assms parse in \<open>simp_all add: sign_free_def sign_free_event_def handleInputChange_def
      handleStart_def handlePause_def handleReset_def handleDismiss_def Let_def\<close>)
  then show ?thesis by (simp add: sign_free_def dispatch_def widget_simps)
qed

lemma run_refines_engine:
  assumes "reachable s" "sign_free s" "enabled_run s es" "list_all sign_free_event es"
  shows "abs_widget (run_events es s) = fold engine_op es (abs_widget s)"
  using assms
proof (induction es arbitrary: s)
  case Nil
  then show ?case by (simp add: run_events_def)
next
  case (Cons e es)
  then have en: "event_enabled s e" "enabled_run (dispatch e s) es" by simp_all
  have "abs_widget (run_events es (dispatch e s)) = fold engine_op es (abs_widget (dispatch e s))"
    using Cons en by (intro Cons.IH reachable_dispatch sign_free_dispatch) simp_all
  moreover have "abs_widget (dispatch e s) = engine_op e (abs_widget s)"
    using Cons.prems(1,2) en(1) by (intro dispatch_refines_engine) (simp_all add: sign_free_def)
  ultimately show ?case by (simp add: run_events_def)
qed

text \<open>C4: Data refinement of the whole widget over sessions: every run of events
  the page and the armed timer offer from the mounted widget, in which no typed
  text contains a minus sign, read as an engine, is the run of the specified
  engine operations from the engine's start (Idle, five minutes).\<close>

theorem session_refines_engine:
  assumes "enabled_run mount es" "list_all sign_free_event es"
  shows "abs_widget (run_events es mount) = fold engine_op es engine_start"
proof -
  have "sign_free mount" by (simp add: sign_free_def mount_eq nonneg_time_def)
  moreover have "abs_widget mount = engine_start"
    by (simp add: abs_widget_def mount_eq engine_start_def status_of_def total_seconds_def)
  ultimately show ?thesis using run_refines_engine[OF reachable.mounted _ assms] by simp
qed

theorem session_refines_engine_witness:
  "enabled_run mount [InputChange ''0:01'', StartClick, IntervalFires 1, IntervalFires 1] \<and>
   list_all sign_free_event [InputChange ''0:01'', StartClick, IntervalFires 1, IntervalFires 1] \<and>
   abs_widget (run_events [InputChange ''0:01'', StartClick, IntervalFires 1, IntervalFires 1] mount) =
     \<lparr>eng_status = Completed, eng_remaining = 0, eng_alert = True, eng_fired = 1,
      eng_text = ''0:01''\<rparr>"
proof -
  have h: "enabled_run mount [InputChange ''0:01'', StartClick, IntervalFires 1, IntervalFires 1]"
    by code_simp
  have f: "list_all sign_free_event [InputChange ''0:01'', StartClick, IntervalFires 1, IntervalFires 1]"
    by (simp add: sign_free_event_def)
  have e: "fold engine_op [InputChange ''0:01'', StartClick, IntervalFires 1, IntervalFires 1] engine_start =
     \<lparr>eng_status = Completed, eng_remaining = 0, eng_alert = True, eng_fired = 1,
      eng_text = ''0:01''\<rparr>"
    by code_simp
  show ?thesis using session_refines_engine[OF h f] h f e by simp
qed

end
