(* ===== verification/Modal.thy ===== *)
theory Modal
  imports Session
begin

text \<open>
  The completion notice (App.tsx lines 261--280) is an overlay with the classes
  \<^verbatim>\<open>fixed inset-0 z-50\<close>: while \<^verbatim>\<open>showAlert\<close> holds it covers the whole
  viewport, so a pointer reaches only its Dismiss button. The keyboard is not
  blocked: Tab still moves the focus to the input and the buttons beneath, which
  is why \<open>ui_step\<close> lets every enabled control fire. \<open>pointer_enabled\<close> is what a
  mouse user can do (the browser's interval is not blocked by the overlay);
  \<open>pointer_reachable\<close> the states of mouse-only sessions. For them the notice
  behaves as the specification's Alert Notifier says (section 4.3); with the
  keyboard it does not.
\<close>

definition pointer_enabled :: "widget \<Rightarrow> event \<Rightarrow> bool" where
  "pointer_enabled s e \<longleftrightarrow>
     event_enabled s e \<and>
     (alertModal (render s) \<longrightarrow>
        (case e of DismissClick \<Rightarrow> True | IntervalFires i \<Rightarrow> True | _ \<Rightarrow> False))"

inductive pointer_reachable :: "widget \<Rightarrow> bool" where
  mounted: "pointer_reachable mount"
| step: "pointer_reachable s \<Longrightarrow> pointer_enabled s e \<Longrightarrow> pointer_reachable (dispatch e s)"

text \<open>The session typed at the keyboard: set one second, start, let it expire,
  then, with the notice still open, type a new duration and start again.\<close>

abbreviation keyboard_session :: "event list" where
  "keyboard_session \<equiv>
     [InputChange ''0:01'', StartClick, IntervalFires 1, IntervalFires 1,
      InputChange ''0:02'', StartClick]"

subsection \<open>Mouse-only sessions\<close>

lemma pointer_reachable_reachable: "pointer_reachable s \<Longrightarrow> reachable s"
  by (induction rule: pointer_reachable.induct)
     (auto simp: pointer_enabled_def intro: reachable.mounted reachable_dispatch)

lemma handle_alert_off:
  "\<not> showAlert s \<Longrightarrow> \<forall>i. e \<noteq> IntervalFires i \<Longrightarrow> \<not> showAlert (handle e s)"
  by (cases e) (simp_all add: handleInputChange_def handleStart_def handlePause_def
      handleReset_def handlePreset_def handleDismiss_def Let_def)

lemma pointer_alert_completed: "pointer_reachable s \<Longrightarrow> showAlert s \<Longrightarrow> isCompleted s"
proof (induction rule: pointer_reachable.induct)
  case mounted
  then show ?case by (simp add: mount_eq)
next
  case (step s e)
  have inv: "widget_inv s" using step.hyps(1) by (intro reachable_inv pointer_reachable_reachable)
  show ?case
  proof (cases "\<exists>i. e = IntervalFires i")
    case True
    then obtain i where e: "e = IntervalFires i" by blast
    have run: "isRunning s \<and> \<not> isCompleted s"
      using step.hyps(2) inv e by (simp add: pointer_enabled_def enabled_interval_running)
    then have "\<not> showAlert s" using step.IH by blast
    then show ?thesis using step.prems e run
      by (auto simp: dispatch_def widget_simps on_interval_cases split: if_splits)
  next
    case False
    have "\<not> showAlert s \<or> e = DismissClick"
      using step.hyps(2) False by (auto simp: pointer_enabled_def render_def split: event.splits)
    then have "\<not> showAlert (handle e s)"
      using False handle_alert_off[of s e] by (auto simp: handleDismiss_def)
    then show ?thesis using step.prems by (simp add: dispatch_def widget_simps)
  qed
qed

lemma pointer_enabled_alert:
  assumes "widget_inv s" "isCompleted s" "showAlert s"
  shows "pointer_enabled s e \<longleftrightarrow> e = DismissClick"
proof -
  have "liveIntervals s = []" using assms(1,2) by (auto simp: widget_inv_def split: option.splits)
  then show ?thesis using assms(3)
    by (auto simp: pointer_enabled_def event_enabled_def render_def split: event.splits)
qed

text \<open>C14: The notice for mouse users, as section 4.3 specifies it: in a mouse-only
  session the notice is shown only in Completed at the zero time; while it is
  shown Dismiss is the only thing a user can do, and Dismiss closes it and leaves
  the status and the time as they are.\<close>

theorem pointer_notice_contract:
  assumes "pointer_reachable s" "showAlert s"
  shows "isCompleted s \<and> is_zero_time (time s) \<and> (\<forall>e. pointer_enabled s e \<longleftrightarrow> e = DismissClick) \<and>
         \<not> showAlert (dispatch DismissClick s) \<and> status_of (dispatch DismissClick s) = Completed \<and>
         time (dispatch DismissClick s) = time s"
proof -
  have inv: "widget_inv s" using assms(1) by (intro reachable_inv pointer_reachable_reachable)
  have c: "isCompleted s" using assms by (rule pointer_alert_completed)
  have d: "dispatch DismissClick s = s\<lparr>showAlert := False\<rparr>"
    by (simp add: dispatch_def handleDismiss_def commit_same)
  show ?thesis using inv c pointer_enabled_alert[OF inv c assms(2)] d
    by (simp add: widget_inv_def status_of_def)
qed

text \<open>C15: Where the code and section 4.3 part: at the keyboard the controls under
  the notice stay reachable, and typing a new duration and pressing Start with the
  notice open gives a reachable state in which the \<^emph>\<open>Time's Up\<close> notice is shown
  over a running timer, a state no mouse-only session reaches.\<close>

theorem keyboard_notice_over_running:
  "reachable (run_events keyboard_session mount) \<and>
   showAlert (run_events keyboard_session mount) \<and> isRunning (run_events keyboard_session mount) \<and>
   \<not> pointer_reachable (run_events keyboard_session mount)"
proof -
  have "enabled_run mount keyboard_session" by code_simp
  then have r: "reachable (run_events keyboard_session mount)"
    by (rule reachable_run_events[OF reachable.mounted])
  have a: "showAlert (run_events keyboard_session mount) \<and> isRunning (run_events keyboard_session mount)"
    by code_simp
  have "\<not> isCompleted (run_events keyboard_session mount)"
    using reachable_inv[OF r] a by (simp add: widget_inv_def)
  then have "\<not> pointer_reachable (run_events keyboard_session mount)"
    using a pointer_alert_completed by blast
  then show ?thesis using r a by blast
qed

lemma pointer_demo_completed: "pointer_reachable demo_completed"
proof -
  have "pointer_reachable (dispatch (IntervalFires 1) (dispatch (IntervalFires 1)
          (dispatch StartClick (dispatch (InputChange ''0:01'') mount))))"
    by (intro pointer_reachable.step pointer_reachable.mounted; code_simp)
  moreover have "dispatch (IntervalFires 1) (dispatch (IntervalFires 1)
          (dispatch StartClick (dispatch (InputChange ''0:01'') mount))) = demo_completed"
    by code_simp
  ultimately show ?thesis by simp
qed

theorem pointer_notice_contract_witness:
  "pointer_reachable demo_completed \<and> showAlert demo_completed \<and>
   pointer_enabled demo_completed DismissClick \<and> \<not> pointer_enabled demo_completed ResetClick \<and>
   \<not> showAlert (dispatch DismissClick demo_completed) \<and>
   status_of (dispatch DismissClick demo_completed) = Completed"
  using pointer_notice_contract[OF pointer_demo_completed] pointer_demo_completed by simp

end
