(* ===== verification/Spec2Isabelle.thy ===== *)
theory Spec2Isabelle
  imports AbstractTimer Modal
begin

text \<open>
  \<^bold>\<open>A verification development for the countdown timer of rsahobiddinov/Homework.\<close>

  The program is one React component, \<^verbatim>\<open>CountdownTimer\<close> in
  \<^verbatim>\<open>src/src/App.tsx\<close>. Its parts, and the theory that models each:

  \<^item> \<^bold>\<open>JavaScript built-ins\<close> (theory \<open>JsRuntime\<close>). \<^verbatim>\<open>trim\<close>, \<^verbatim>\<open>split\<close>,
    \<^verbatim>\<open>parseInt\<close> (with its sign, its \<^verbatim>\<open>0x\<close> prefix and its longest digit prefix),
    the falsy test of \<^verbatim>\<open>|| 0\<close>, \<^verbatim>\<open>toString\<close> and \<^verbatim>\<open>padStart\<close>, after the
    algorithms of ECMA-262, on strings of code units below 256 and on integral
    numbers. Lemmas: splitting around separators, \<^verbatim>\<open>parseInt\<close> of decimal
    strings, \<^verbatim>\<open>parseInt(toString(n).padStart(2,'0')) = n\<close>, and that trimming
    before \<^verbatim>\<open>parseInt\<close> never changes its result.
  \<^item> \<^bold>\<open>Duration Parser and formatter\<close> (theory \<open>Duration\<close>). The record
    \<open>TimeState\<close> (lines 4--8), \<open>parseTimeInput\<close> with its part parser
    \<open>parse_part\<close> (lines 92--100), \<open>formatTime\<close> with the field format \<open>pad2\<close>
    (lines 102--112). Lemmas: the \<open>MM:SS\<close> and \<open>HH:MM:SS\<close> readings, the zero time
    for any other number of colons, non-negative fields for text without a minus
    sign, the radix-16 reading of parts that start with \<^verbatim>\<open>0x\<close>, and the round
    trip \<open>parseTimeInput (formatTime t) = t\<close> for every time with non-negative
    hours. \<open>clock_text\<close> is the display format of the
    specification (section 6); \<open>formatTime\<close> produces it for fields below 100
    (and not at 100 hours, a gap of the specification).
  \<^item> \<^bold>\<open>Countdown Engine, arithmetic\<close> (theory \<open>Countdown\<close>). The updater the
    interval passes to \<^verbatim>\<open>setTime\<close> (lines 56--76) as \<open>interval_tick\<close>, its
    borrow decrement as \<open>countdown_step\<close>. The abstraction \<open>total_seconds\<close> maps a
    time to a number of seconds; the refinement lemma shows that the updater is the
    abstract countdown \<open>n \<mapsto> n - 1\<close> with expiry at 0, that the decrement reaches
    zero after exactly \<open>total_seconds\<close> steps, and that on canonical times it is
    \<open>of_seconds (n - 1)\<close>. On the negative fields the parser lets through,
    the borrow makes the remaining time grow.
  \<^item> \<^bold>\<open>Alert Notifier, tone\<close> (theory \<open>Notifier\<close>). The audio context of
    lines 25--27 is a record \<open>audio_ctx\<close>: its clock, the number of nodes it
    created, and the log of the calls made on them. \<open>createBeepSound\<close> (lines
    29--47) creates an oscillator and a gain node and makes, in the code's order,
    the calls \<open>beep_calls\<close>. What the calls mean is the Web Audio API's, modelled
    from its specification: the routing graph \<open>connections\<close>, the value of an
    automated parameter \<open>param_at\<close> (set values and exponential ramps),
    \<open>sounding\<close> between start and stop. Lemmas: a play routes a fresh 800\,Hz
    sine oscillator through its own gain node to the speakers for exactly one
    second, and its gain starts at 0.3 and falls strictly to 0.01; well-formedness
    \<open>audio_wf\<close> (every node named was created) is kept.
  \<^item> \<^bold>\<open>Countdown Engine, widget state and handlers\<close> (theory \<open>Widget\<close>). Every
    \<^verbatim>\<open>useState\<close> and \<^verbatim>\<open>useRef\<close> of lines 11--22 is a field of the record
    \<open>widget\<close>, together with the browser's table of armed intervals
    (\<open>liveIntervals\<close>, \<open>nextTimerId\<close>), the number of tones played
    (\<open>beeps\<close>) and the audio context (\<open>audioCtx\<close>) that the audio effect creates
    and every completion plays a tone on. The handlers \<open>handleInputChange\<close>, \<open>handleStart\<close>,
    \<open>handlePause\<close>, \<open>handleReset\<close>, \<open>handlePreset\<close>, the Dismiss button and the
    interval callback \<open>on_interval\<close> are state-passing functions; the timer
    effect of lines 53--90 (\<open>timer_effect\<close>, \<open>timer_cleanup\<close>) runs in
    \<open>commit\<close> when \<^verbatim>\<open>isRunning\<close> or \<^verbatim>\<open>isCompleted\<close> changed, as React's
    dependency array prescribes; \<open>dispatch\<close> is a handler followed by its commit.
  \<^item> \<^bold>\<open>The page\<close> (theory \<open>View\<close>). \<open>render\<close> (lines 158--283): the displayed
    text, the colour scheme, the banner, the \<^verbatim>\<open>disabled\<close> attributes and the modal.
  \<^item> \<^bold>\<open>The session\<close> (theory \<open>Session\<close>). An event is possible when the rendered
    page offers it or, for a tick, when its interval is armed (\<open>event_enabled\<close>);
    \<open>ui_step\<close> is one such event, \<open>reachable\<close> the states of runs from
    \<open>mount\<close>. The invariant \<open>widget_inv\<close> (Running and Completed exclusive,
    Completed only at zero, the armed interval exactly while running) holds in all
    reachable states by rule induction. On it rest: the simulation of the
    specification's status machine \<open>spec_step\<close>, the Alert Notifier firing exactly
    once per completion (one more tone counted and one \<open>createBeepSound\<close> on the
    audio context), the only entry into Completed, the colour scheme showing
    the status, the functional behaviour of each handler including its guards,
    and that Pause followed by Start loses no time and re-arms exactly one fresh
    interval.
    A second invariant, \<open>audio_inv\<close>, ties the component to the Notifier: the
    audio context of a reachable state is well-formed and holds one started
    oscillator per counted tone.
  \<^item> \<^bold>\<open>The engine of the specification\<close> (theory \<open>AbstractTimer\<close>). The
    record \<open>engine\<close> (status, remaining seconds, notice, firings, text) and its
    operations \<open>engine_op\<close>, read from sections 3, 4.2 and 4.3 of the
    specification, are the abstract contract; \<open>abs_widget\<close> reads a widget as
    an engine. One proof obligation per event shows that each enabled event of a
    reachable state with non-negative fields is the specified operation; lifted
    to runs, every session from \<open>mount\<close> in which no typed text has a minus sign
    is, read through \<open>abs_widget\<close>, the engine's run from \<open>engine_start\<close>.
  \<^item> \<^bold>\<open>The notice overlay\<close> (theory \<open>Modal\<close>). The overlay of lines
    262--263 covers the page while the notice is shown, so a mouse reaches only
    Dismiss (\<open>pointer_enabled\<close>, \<open>pointer_reachable\<close>); the keyboard still reaches
    the controls beneath. Lemmas: for mouse-only sessions the notice keeps the
    contract of section 4.3 (shown only in Completed, closed only by Dismiss,
    which leaves the status alone); a keyboard session reaches the notice shown
    over a running timer.
  \<^item> \<^bold>\<open>This theory\<close> states what spans the components: the liveness of a
    running countdown over \<open>run_interval\<close> (the browser firing the armed interval
    once per second), its failure for negative durations, the agreement of Preset
    and Reset, and the boundary scenario of the specification.

  \<^bold>\<open>Bounds and fuel.\<close> No loop of the program needs fuel: the only repetition is
  the browser's interval, modelled by the number of firings \<open>k\<close> of
  \<open>run_interval\<close>; the liveness theorem names the exact count,
  \<open>total_seconds + 1\<close>, and proves completion with it.

  \<^bold>\<open>Not modelled.\<close> Sound synthesis itself (the model stops at the
  scheduled calls and the parameter values they define) and the progress of the
  audio clock \<^verbatim>\<open>currentTime\<close>, which is the browser's: every tone is
  scheduled relative to the clock's value at the call, and the model keeps that
  value fixed. Class names, icons and layout (except the overlay's blocking of
  the mouse); the timing drift of \<^verbatim>\<open>setInterval\<close>; React's development-mode
  double invocation of state updaters, which only \<^verbatim>\<open>StrictMode\<close> enables and
  which no code of the repository does (it has no entry point under
  \<^verbatim>\<open>src/\<close>); numbers beyond \<open>2^53\<close> (where doubles round) and the exponent
  notation of \<^verbatim>\<open>toString\<close> above \<open>10^21\<close>; code units above 255 in the input
  text. Sessions mixing mouse and keyboard are the general \<open>ui_step\<close>, which
  lets every enabled control fire; mouse-only sessions are \<open>pointer_reachable\<close>.

  \<^bold>\<open>Further work.\<close> The engine refinement for sessions with negative
  fields, where the widget's zero test and the engine's differ.
\<close>

abbreviation demo_negative :: widget where
  "demo_negative \<equiv>
     \<lparr>time = \<lparr>hours = 0, minutes = 0, seconds = -5\<rparr>, isRunning = True, isCompleted = False,
      showAlert = False, inputValue = ''0:-5'', intervalRef = Some 1, beepReady = True,
      liveIntervals = [1], nextTimerId = 2, beeps = 0, audioCtx = Some new_audio_context\<rparr>"

subsection \<open>Firing the interval\<close>

lemma inv_running_ref:
  "widget_inv s \<Longrightarrow> isRunning s \<Longrightarrow> \<exists>i. intervalRef s = Some i \<and> liveIntervals s = [i]"
  by (auto simp: widget_inv_def split: option.splits)

lemma tick_nonzero:
  assumes "widget_inv s" "isRunning s" "\<not> is_zero_time (time s)" "intervalRef s = Some i"
  shows "dispatch (IntervalFires i) s = s\<lparr>time := countdown_step (time s)\<rparr>"
  using assms by (simp add: dispatch_def on_interval_cases commit_same)

lemma tick_zero:
  assumes "widget_inv s" "isRunning s" "is_zero_time (time s)" "intervalRef s = Some i"
  shows "dispatch (IntervalFires i) s =
           s\<lparr>isRunning := False, isCompleted := True, showAlert := True, beeps := Suc (beeps s),
             audioCtx := map_option createBeepSound (audioCtx s),
             intervalRef := None, liveIntervals := []\<rparr>"
  using assms
  by (simp add: dispatch_def on_interval_cases commit_def timer_cleanup_def timer_effect_def
      clearInterval_def widget_inv_def)

lemma tick_enabled:
  "widget_inv s \<Longrightarrow> intervalRef s = Some i \<Longrightarrow> event_enabled s (IntervalFires i)"
  by (simp add: event_enabled_def widget_inv_def)

lemma run_interval_countdown:
  assumes "reachable s" "isRunning s" "nonneg_time (time s)" "total_seconds (time s) = int n"
  shows "reachable (run_interval (Suc n) s) \<and> isCompleted (run_interval (Suc n) s) \<and>
         \<not> isRunning (run_interval (Suc n) s) \<and> showAlert (run_interval (Suc n) s) \<and>
         beeps (run_interval (Suc n) s) = Suc (beeps s) \<and>
         is_zero_time (time (run_interval (Suc n) s)) \<and>
         liveIntervals (run_interval (Suc n) s) = [] \<and>
         (\<forall>k \<le> n. isRunning (run_interval k s))"
  using assms
proof (induction n arbitrary: s)
  case 0
  have inv: "widget_inv s" using "0.prems"(1) by (rule reachable_inv)
  obtain i where i: "intervalRef s = Some i" using inv_running_ref[OF inv "0.prems"(2)] by blast
  have z: "is_zero_time (time s)" using "0.prems"(3,4) by (simp add: nonneg_zero_iff_total)
  have "reachable (dispatch (IntervalFires i) s)"
    using "0.prems"(1) tick_enabled[OF inv i] by (rule reachable_dispatch)
  then show ?case using tick_zero[OF inv "0.prems"(2) z i] i z "0.prems"(2) by simp
next
  case (Suc n)
  have inv: "widget_inv s" using Suc.prems(1) by (rule reachable_inv)
  obtain i where i: "intervalRef s = Some i" using inv_running_ref[OF inv Suc.prems(2)] by blast
  have nz: "\<not> is_zero_time (time s)" using Suc.prems(3,4) by (simp add: nonneg_zero_iff_total)
  let ?s1 = "dispatch (IntervalFires i) s"
  have s1: "?s1 = s\<lparr>time := countdown_step (time s)\<rparr>" by (rule tick_nonzero[OF inv Suc.prems(2) nz i])
  have r1: "reachable ?s1" using Suc.prems(1) tick_enabled[OF inv i] by (rule reachable_dispatch)
  have step: "nonneg_time (countdown_step (time s)) \<and>
      total_seconds (countdown_step (time s)) = total_seconds (time s) - 1"
    using Suc.prems(3) nz by (rule countdown_step_refines)
  have ih: "reachable (run_interval (Suc n) ?s1) \<and> isCompleted (run_interval (Suc n) ?s1) \<and>
         \<not> isRunning (run_interval (Suc n) ?s1) \<and> showAlert (run_interval (Suc n) ?s1) \<and>
         beeps (run_interval (Suc n) ?s1) = Suc (beeps ?s1) \<and>
         is_zero_time (time (run_interval (Suc n) ?s1)) \<and>
         liveIntervals (run_interval (Suc n) ?s1) = [] \<and>
         (\<forall>k \<le> n. isRunning (run_interval k ?s1))"
    using r1 Suc.prems(2,4) step by (intro Suc.IH) (simp_all add: s1)
  have run: "run_interval (Suc k) s = run_interval k ?s1" for k using i by simp
  have "\<forall>k \<le> Suc n. isRunning (run_interval k s)"
  proof (intro allI impI)
    fix k assume "k \<le> Suc n"
    then show "isRunning (run_interval k s)"
      using ih Suc.prems(2) run by (cases k) auto
  qed
  then show ?case using ih s1 run by simp
qed


text \<open>C1: Liveness of the countdown: a running reachable widget whose time has
  non-negative fields keeps running through the next \<open>total_seconds\<close> firings of
  its interval and is Completed after one more, with the alert shown, exactly
  one tone played and no interval left armed.\<close>

theorem countdown_completes:
  assumes "reachable s" "isRunning s" "nonneg_time (time s)"
  shows "isCompleted (run_interval (Suc (nat (total_seconds (time s)))) s) \<and>
         \<not> isRunning (run_interval (Suc (nat (total_seconds (time s)))) s) \<and>
         showAlert (run_interval (Suc (nat (total_seconds (time s)))) s) \<and>
         beeps (run_interval (Suc (nat (total_seconds (time s)))) s) = Suc (beeps s) \<and>
         liveIntervals (run_interval (Suc (nat (total_seconds (time s)))) s) = [] \<and>
         (\<forall>k \<le> nat (total_seconds (time s)). isRunning (run_interval k s))"
proof -
  have "total_seconds (time s) = int (nat (total_seconds (time s)))"
    using nonneg_total_seconds[OF assms(3)] by simp
  from run_interval_countdown[OF assms this] show ?thesis by simp
qed

lemma tick_stuck:
  assumes "widget_inv s" "isRunning s" "\<not> is_zero_time (time s)"
    "hours (time s) \<le> 0" "minutes (time s) \<le> 0" "seconds (time s) \<le> 0"
  shows "run_interval k s = s"
proof (induction k)
  case 0
  then show ?case by simp
next
  case (Suc k)
  obtain i where i: "intervalRef s = Some i" using inv_running_ref[OF assms(1,2)] by blast
  have "dispatch (IntervalFires i) s = s"
    using tick_nonzero[OF assms(1-3) i] countdown_step_stuck[OF assms(4-6)] by simp
  with i Suc.IH show ?case by simp
qed

text \<open>C9: A defect of the code: a running time with no positive field that is not
  zero (reachable by typing \<^verbatim>\<open>0:-5\<close> and pressing Start) is returned
  unchanged by the updater (line 75), so every firing of the interval leaves the
  whole state as it is: the timer runs forever, never completes and never plays
  the tone.\<close>

theorem negative_time_never_completes:
  assumes "reachable s" "isRunning s" "\<not> is_zero_time (time s)"
    "hours (time s) \<le> 0" "minutes (time s) \<le> 0" "seconds (time s) \<le> 0"
  shows "run_interval k s = s \<and> isRunning (run_interval k s) \<and>
         \<not> isCompleted (run_interval k s) \<and> beeps (run_interval k s) = beeps s"
  using tick_stuck[OF reachable_inv[OF assms(1)] assms(2-6)] reachable_inv[OF assms(1)]
    assms(2) by (simp add: widget_inv_def)

text \<open>C25: Preset and Reset agree: after a preset of \<open>m\<close> minutes in a state that is
  not running, the stored text is the display text of \<open>m\<close> minutes, and Reset
  restores exactly that duration.\<close>

theorem preset_then_reset:
  "\<not> isRunning s \<Longrightarrow>
   time (dispatch ResetClick (dispatch (PresetClick m) s)) = \<lparr>hours = 0, minutes = m, seconds = 0\<rparr> \<and>
   inputValue (dispatch (PresetClick m) s) = formatTime \<lparr>hours = 0, minutes = m, seconds = 0\<rparr>"
proof -
  let ?t = "\<lparr>hours = 0, minutes = m, seconds = 0\<rparr>"
  have "js_split CHR '':'' (formatTime ?t) = [pad2 m, pad2 0]" by (simp add: formatTime_split)
  then have "parseTimeInput (formatTime ?t) = ?t"
    by (simp add: parseTimeInput_two_parts parse_part_pad2)
  moreover assume "\<not> isRunning s"
  ultimately show ?thesis
    by (simp add: dispatch_def widget_simps handlePreset_def handleReset_def Let_def)
qed

text \<open>C26: The boundary of the specification: from a running \<open>00:01\<close> one firing
  gives \<open>00:00\<close> and keeps running without a tone; the next one completes,
  leaves the time at zero and plays the tone once.\<close>

theorem last_second_boundary:
  assumes "reachable s" "isRunning s" "time s = \<lparr>hours = 0, minutes = 0, seconds = 1\<rparr>"
  shows "time (run_interval 1 s) = \<lparr>hours = 0, minutes = 0, seconds = 0\<rparr> \<and>
         isRunning (run_interval 1 s) \<and> beeps (run_interval 1 s) = beeps s \<and>
         isCompleted (run_interval 2 s) \<and> \<not> isRunning (run_interval 2 s) \<and>
         time (run_interval 2 s) = \<lparr>hours = 0, minutes = 0, seconds = 0\<rparr> \<and>
         beeps (run_interval 2 s) = Suc (beeps s)"
proof -
  have inv: "widget_inv s" using assms(1) by (rule reachable_inv)
  obtain i where i: "intervalRef s = Some i" using inv_running_ref[OF inv assms(2)] by blast
  have nz: "\<not> is_zero_time (time s)" using assms(3) by (simp add: is_zero_time_def)
  let ?s1 = "dispatch (IntervalFires i) s"
  have s1: "?s1 = s\<lparr>time := \<lparr>hours = 0, minutes = 0, seconds = 0\<rparr>\<rparr>"
    using tick_nonzero[OF inv assms(2) nz i] assms(3) by (simp add: countdown_step_def)
  have inv1: "widget_inv ?s1" using inv by (rule dispatch_inv)
  have s2: "dispatch (IntervalFires i) ?s1 =
      ?s1\<lparr>isRunning := False, isCompleted := True, showAlert := True, beeps := Suc (beeps ?s1),
        audioCtx := map_option createBeepSound (audioCtx ?s1),
        intervalRef := None, liveIntervals := []\<rparr>"
    using tick_zero[OF inv1] s1 assms(2) i by (simp add: is_zero_time_def)
  have "run_interval 1 s = ?s1" "run_interval 2 s = dispatch (IntervalFires i) ?s1"
    using i s1 by (simp_all add: numeral_2_eq_2)
  then show ?thesis using s1 s2 assms(2) by simp
qed

subsection \<open>Witnesses\<close>

lemma demo_negative_reachable: "reachable demo_negative"
proof -
  have "enabled_run mount [InputChange ''0:-5'', StartClick]" by code_simp
  moreover have "run_events [InputChange ''0:-5'', StartClick] mount = demo_negative" by code_simp
  ultimately show ?thesis using reachable_run_events[OF reachable.mounted] by metis
qed

theorem countdown_completes_witness:
  "reachable demo_running \<and> isRunning demo_running \<and> nonneg_time (time demo_running) \<and>
   isCompleted (run_interval 2 demo_running) \<and> beeps (run_interval 2 demo_running) = 1"
proof -
  have h: "nonneg_time (time demo_running)" by (simp add: nonneg_time_def)
  have n: "Suc (nat (total_seconds (time demo_running))) = 2" by (simp add: total_seconds_def)
  show ?thesis using countdown_completes[OF demo_reachable(1) _ h] demo_reachable(1) h
    unfolding n by simp
qed

theorem negative_time_never_completes_witness:
  "reachable demo_negative \<and> isRunning demo_negative \<and> \<not> is_zero_time (time demo_negative) \<and>
   run_interval 86400 demo_negative = demo_negative \<and>
   \<not> isCompleted (run_interval 86400 demo_negative) \<and>
   formatTime (time demo_negative) = ''00:-5''"
proof -
  have h: "\<not> is_zero_time (time demo_negative)" by (simp add: is_zero_time_def)
  have f: "formatTime (time demo_negative) = ''00:-5''" by code_simp
  show ?thesis
    using negative_time_never_completes[OF demo_negative_reachable _ h, of 86400]
      demo_negative_reachable h f by simp
qed

theorem preset_then_reset_witness:
  "\<not> isRunning demo_completed \<and>
   time (dispatch ResetClick (dispatch (PresetClick 60) demo_completed))
     = \<lparr>hours = 0, minutes = 60, seconds = 0\<rparr> \<and>
   inputValue (dispatch (PresetClick 60) demo_completed) = ''60:00''"
proof -
  have f: "formatTime \<lparr>hours = 0, minutes = 60, seconds = 0\<rparr> = ''60:00''" by code_simp
  show ?thesis using preset_then_reset[of demo_completed 60] f by simp
qed

theorem last_second_boundary_witness:
  "reachable demo_running \<and> isRunning demo_running \<and>
   time demo_running = \<lparr>hours = 0, minutes = 0, seconds = 1\<rparr> \<and>
   isCompleted (run_interval 2 demo_running) \<and> beeps (run_interval 2 demo_running) = 1"
  using last_second_boundary[OF demo_reachable(1)] demo_reachable(1) by simp

end
